theory Spec2Isabelle
  imports Main "HOL-Library.Sublist" "HOL-Library.Word"
begin

unbundle bit_operations_syntax

section \<open>Strings and bytes\<close>

text \<open>
  A Go string is a sequence of bytes, here a \<^typ>\<open>string\<close>. The functions of package
  \<^verbatim>\<open>strings\<close> that \<^verbatim>\<open>website.go\<close> calls are written out; they keep Go's argument order.
\<close>

type_synonym byte = "8 word"

definition HasPrefix :: "string \<Rightarrow> string \<Rightarrow> bool" where
  "HasPrefix s p = prefix p s"

definition TrimPrefix :: "string \<Rightarrow> string \<Rightarrow> string" where
  "TrimPrefix s p = (if HasPrefix s p then drop (length p) s else s)"

text \<open>
  \<^verbatim>\<open>strings.Cut(s, sep)\<close>: the text before and after the first occurrence of \<^verbatim>\<open>sep\<close>,
  and whether there is one; \<^verbatim>\<open>(s, "", false)\<close> when there is none.
\<close>

fun Cut :: "string \<Rightarrow> string \<Rightarrow> string \<times> string \<times> bool" where
  "Cut [] sep = ([], [], sep = [])"
| "Cut (c # t) sep =
     (if prefix sep (c # t) then ([], drop (length sep) (c # t), True)
      else (case Cut t sep of
              (b, a, True) \<Rightarrow> (c # b, a, True)
            | (b, a, False) \<Rightarrow> (c # t, [], False)))"

text \<open>
  \<^verbatim>\<open>strings.ReplaceAll(s, old, new)\<close> scans from the left and replaces non-overlapping
  occurrences. Every call of the source passes a non-empty literal for \<^verbatim>\<open>old\<close>; Go's
  treatment of an empty \<^verbatim>\<open>old\<close> (an insertion at every rune boundary) is not part of
  the model, which leaves the string as it is there.
\<close>

function ReplaceAll :: "string \<Rightarrow> string \<Rightarrow> string \<Rightarrow> string" where
  "ReplaceAll [] old new = []"
| "ReplaceAll (c # t) old new =
     (if old \<noteq> [] \<and> prefix old (c # t)
      then new @ ReplaceAll (drop (length old) (c # t)) old new
      else c # ReplaceAll t old new)"
  by pat_completeness auto
termination
  by (relation "measure (\<lambda>(s, old, new). length s)") (auto simp: neq_Nil_conv)

text \<open>
  \<^verbatim>\<open>strings.ToLower\<close>: on a string of ASCII bytes the letters A to Z are shifted to a to z;
  any other string goes through the Unicode tables (\<^verbatim>\<open>strings.Map(unicode.ToLower, s)\<close>),
  which are a parameter here.
\<close>

definition lowerASCII :: "char \<Rightarrow> char" where
  "lowerASCII c =
     (if 65 \<le> (of_char c :: nat) \<and> (of_char c :: nat) \<le> 90
      then char_of ((of_char c :: nat) + 32) else c)"

definition isASCII :: "string \<Rightarrow> bool" where
  "isASCII s = list_all (\<lambda>c. (of_char c :: nat) < 128) s"

definition ToLower :: "(string \<Rightarrow> string) \<Rightarrow> string \<Rightarrow> string" where
  "ToLower unicodeLower s = (if isASCII s then map lowerASCII s else unicodeLower s)"

definition FormatBool :: "bool \<Rightarrow> string" where
  "FormatBool b = (if b then ''true'' else ''false'')"

text \<open>\<^verbatim>\<open>hex.EncodeToString\<close>, and \<^verbatim>\<open>%x\<close> of a byte array: two lower-case digits a byte.\<close>

definition hextable :: string where
  "hextable = ''0123456789abcdef''"

definition hexByte :: "byte \<Rightarrow> string" where
  "hexByte v = [hextable ! unat (drop_bit 4 v), hextable ! unat (v AND 0x0f)]"

definition EncodeToString :: "byte list \<Rightarrow> string" where
  "EncodeToString src = concat (map hexByte src)"

section \<open>The data model of package types\<close>

text \<open>
  A \<^verbatim>\<open>time.Time\<close> is an instant (seconds and nanoseconds since the zero time) and a
  location. \<^verbatim>\<open>IsZero\<close> looks at the instant only; \<^verbatim>\<open>UTC\<close> changes the location only.
\<close>

datatype location = UTC | Local

record gotime =
  wall_sec :: int
  wall_nsec :: nat
  zone :: location

definition IsZero :: "gotime \<Rightarrow> bool" where
  "IsZero t = (wall_sec t = 0 \<and> wall_nsec t = 0)"

definition time_UTC :: "gotime \<Rightarrow> gotime" where
  "time_UTC t = t\<lparr>zone := UTC\<rparr>"

text \<open>A pointer is a value or \<^verbatim>\<open>nil\<close>; a Go map is a partial function, or the \<^verbatim>\<open>nil\<close> map.\<close>

type_synonym 'a ptr = "'a option"

type_synonym DocumentType = "16 word"

definition DocumentTypeUnknown :: DocumentType where
  "DocumentTypeUnknown = 0"

definition DocumentTypeMarkdown :: DocumentType where
  "DocumentTypeMarkdown = 1"

definition DocumentTypeHTML :: DocumentType where
  "DocumentTypeHTML = 2"

record Metadata =
  ID :: string
  Title :: string
  Author :: string
  Description :: string
  Date :: gotime
  Path :: string
  GoPackage :: string
  Canonical :: string
  Hidden :: bool

record Document =
  Type :: DocumentType
  Markdown :: string
  HTML :: string
  Metadata :: Metadata

text \<open>
  The fields \<^verbatim>\<open>ID\<close> and \<^verbatim>\<open>Path\<close> of a \<^verbatim>\<open>Post\<close> are \<open>Post_ID\<close> and \<open>Post_Path\<close> here,
  apart from the fields of the same names in \<^verbatim>\<open>Metadata\<close>.
\<close>

record Post =
  Post_ID :: string
  FilePath :: string
  Post_Path :: string
  Hash :: string
  CreatedAt :: gotime
  UpdatedAt :: gotime
  Main :: "Document ptr"
  Translated :: "(string \<rightharpoonup> Document ptr) option"

record DataStore =
  Posts :: "(string \<rightharpoonup> Post ptr) option"

type_synonym DataStore_ptr = "DataStore ptr"

record GenerationContext =
  DataStore :: DataStore_ptr

section \<open>Errors\<close>

text \<open>
  Every error return of the source is a value of \<open>error\<close>. A Go panic is not an error
  value: it unwinds the program. It is kept in the same type, under \<open>Panic\<close>, so that each
  function has one result; the callers stop at it.
\<close>

datatype panic = NilDereference | NilMapWrite | RandIDFailed

datatype error =
    ErrInvalidMarkdown
  | ErrNotExist
  | ErrExist
  | ErrIO
  | ErrParse
  | ErrYAML
  | ErrCodec
  | Panic panic

section \<open>The world outside the program\<close>

text \<open>
  The file system maps a path to the bytes and the permission bits of a file. The entropy
  source is a tape of bytes still to be drawn, and the clock is a sequence of readings, one
  for each call of \<^verbatim>\<open>time.Now\<close>.
\<close>

record osfile =
  content :: string
  perm :: "32 word"

record world =
  files :: "string \<rightharpoonup> osfile"
  entropy :: "byte list"
  clock :: "nat \<Rightarrow> gotime"
  ticks :: nat

definition time_Now :: "world \<Rightarrow> gotime \<times> world" where
  "time_Now w = (clock w (ticks w), w\<lparr>ticks := Suc (ticks w)\<rparr>)"

text \<open>
  \<^verbatim>\<open>rand.Read(b)\<close> on a zeroed array of \<open>n\<close> bytes: the bytes drawn, whether the read
  failed, and the world after it. A source that runs dry fails, and leaves the bytes it
  could not fill at zero.
\<close>

definition rand_Read :: "nat \<Rightarrow> world \<Rightarrow> byte list \<times> bool \<times> world" where
  "rand_Read n w =
     (if n \<le> length (entropy w)
      then (take n (entropy w), False, w\<lparr>entropy := drop n (entropy w)\<rparr>)
      else (entropy w @ replicate (n - length (entropy w)) 0, True, w\<lparr>entropy := []\<rparr>))"

definition RandID :: "world \<Rightarrow> (error + string) \<times> world" where
  "RandID w =
     (case rand_Read 16 w of
        (b, failed, w') \<Rightarrow>
          if failed then (Inl (Panic RandIDFailed), w') else (Inr (EncodeToString b), w'))"

section \<open>The content hasher\<close>

text \<open>
  The digest function (BLAKE3), the layout \<^verbatim>\<open>time.RFC3339\<close> of a time, and the generated
  \<^verbatim>\<open>String\<close> method of \<^verbatim>\<open>DocumentType\<close> come from outside the two source files; they
  are parameters. A hasher that is written to several times digests the concatenation.
\<close>

record hasher =
  blake3_Sum :: "string \<Rightarrow> byte list"
  Format_RFC3339 :: "gotime \<Rightarrow> string"
  DocumentType_String :: "DocumentType \<Rightarrow> string"

definition Metadata_bytes :: "hasher \<Rightarrow> Metadata \<Rightarrow> string" where
  "Metadata_bytes H g =
     ID g @ Title g @ Author g @ Description g @ Format_RFC3339 H (Date g) @ Path g @
     GoPackage g @ Canonical g @ FormatBool (Hidden g)"

definition Metadata_Hash :: "hasher \<Rightarrow> Metadata \<Rightarrow> string" where
  "Metadata_Hash H g = EncodeToString (blake3_Sum H (Metadata_bytes H g))"

definition Document_bytes :: "hasher \<Rightarrow> Document \<Rightarrow> string" where
  "Document_bytes H g =
     DocumentType_String H (Type g) @ Markdown g @ HTML g @ Metadata_Hash H (Metadata g)"

definition Document_Hash :: "hasher \<Rightarrow> Document \<Rightarrow> string" where
  "Document_Hash H g = EncodeToString (blake3_Sum H (Document_bytes H g))"

section \<open>The path generator\<close>

definition rootDir :: string where
  "rootDir = ''root''"

text \<open>The loop \<^verbatim>\<open>for strings.HasPrefix(fp, "/") { fp = strings.TrimPrefix(fp, "/") }\<close>.\<close>

function trimSlashes :: "string \<Rightarrow> string" where
  "trimSlashes fp = (if HasPrefix fp ''/'' then trimSlashes (TrimPrefix fp ''/'') else fp)"
  by pat_completeness auto
termination
  by (relation "measure length") (auto simp: HasPrefix_def TrimPrefix_def prefix_def)

declare trimSlashes.simps [simp del]

text \<open>
  \<^verbatim>\<open>generatePath\<close> in three parts: lines 77 to 89 (the thirteen replacements), lines 91 to
  95 (the five collapsing passes), and lines 71 to 95 together, which make the slug; the
  random suffix and the prefix of lines 97 to 99 are added in \<open>generatePath\<close> itself. The
  error of \<^verbatim>\<open>rand.Read\<close> is not looked at (line 98).
\<close>

definition replaceUnsafe :: "string \<Rightarrow> string" where
  "replaceUnsafe fp0 =
     (let fp = ReplaceAll fp0 '' '' ''-'';
          fp = ReplaceAll fp ''/'' ''-'';
          fp = ReplaceAll fp ''{'' ''-'';
          fp = ReplaceAll fp ''}'' ''-'';
          fp = ReplaceAll fp ''|'' ''-'';
          fp = ReplaceAll fp [CHR 0x5C] ''-'';
          fp = ReplaceAll fp ''^'' ''-'';
          fp = ReplaceAll fp ''~'' ''-'';
          fp = ReplaceAll fp ''['' ''-'';
          fp = ReplaceAll fp '']'' ''-'';
          fp = ReplaceAll fp [CHR 0x27] ''-'';
          fp = ReplaceAll fp [CHR 0x22] ''-'';
          fp = ReplaceAll fp [CHR 0x60] ''-''
      in fp)"

definition collapseHyphens :: "string \<Rightarrow> string" where
  "collapseHyphens fp0 =
     (let fp = ReplaceAll fp0 ''----'' ''-'';
          fp = ReplaceAll fp ''---'' ''-'';
          fp = ReplaceAll fp ''--'' ''-'';
          fp = ReplaceAll fp ''--'' ''-'';
          fp = ReplaceAll fp ''--'' ''-''
      in fp)"

definition slug :: "(string \<Rightarrow> string) \<Rightarrow> string \<Rightarrow> string" where
  "slug unicodeLower title =
     collapseHyphens (replaceUnsafe (ToLower unicodeLower (trimSlashes (TrimPrefix title rootDir))))"

definition generatePath :: "(string \<Rightarrow> string) \<Rightarrow> string \<Rightarrow> world \<Rightarrow> string \<times> world" where
  "generatePath unicodeLower title w =
     (case rand_Read 4 w of
        (b, failed, w') \<Rightarrow>
          (''/blog/posts/'' @ slug unicodeLower title @ ''-'' @ EncodeToString b, w'))"

section \<open>External collaborators and the operating system\<close>

text \<open>
  The markdown parser (package \<^verbatim>\<open>internal/markdown\<close>), the YAML encoder, the hasher's
  parameters, the Unicode case tables, and the snapshot codec (the JSON decoder over a zstd
  reader, the JSON encoder into a zstd writer, and the zstd writer on its own) are taken as
  they are found: \<open>extern\<close> holds them. \<open>fails\<close> says which system or library call fails on
  which path with an error other than "the file does not exist" and "the file exists", which
  follow from the file system. A call that fails leaves the file system as it was.
  \<open>stage\<close> stands for lines 238 to 259 of \<^verbatim>\<open>generate\<close>: the removal of the output
  directory, the copy of the static files and the walk of the source tree, which gives the
  list of files to process.
\<close>

datatype call =
    Stat | ReadFile | WriteFile | Create | Open | Write | CloseWriter | Close | Seek | Rename
  | NewWriter | NewReader

record extern =
  ParseMarkdown :: "string \<Rightarrow> error + Document"
  yaml_Marshal :: "Metadata \<Rightarrow> error + string"
  hashing :: hasher
  unicode_ToLower :: "string \<Rightarrow> string"
  snapshot_Decode :: "string \<Rightarrow> error + DataStore_ptr"
  snapshot_Encode :: "DataStore_ptr \<Rightarrow> error + string"
  zstd_Compress :: "string \<Rightarrow> string"
  stage :: "world \<Rightarrow> (error + string list) \<times> world"
  fails :: "call \<Rightarrow> string \<Rightarrow> bool"

definition os_ReadFile :: "extern \<Rightarrow> string \<Rightarrow> world \<Rightarrow> error + string" where
  "os_ReadFile X name w =
     (if fails X ReadFile name then Inl ErrIO
      else case files w name of None \<Rightarrow> Inl ErrNotExist | Some f \<Rightarrow> Inr (content f))"

definition os_Stat :: "extern \<Rightarrow> string \<Rightarrow> world \<Rightarrow> error + osfile" where
  "os_Stat X name w =
     (if fails X Stat name then Inl ErrIO
      else case files w name of None \<Rightarrow> Inl ErrNotExist | Some f \<Rightarrow> Inr f)"

text \<open>
  \<^verbatim>\<open>os.WriteFile\<close> truncates a file that exists and keeps its permission bits; the bits
  it is given are for a file it creates.
\<close>

definition os_WriteFile :: "extern \<Rightarrow> string \<Rightarrow> string \<Rightarrow> 32 word \<Rightarrow> world \<Rightarrow> error option \<times> world" where
  "os_WriteFile X name data pm w =
     (if fails X WriteFile name then (Some ErrIO, w)
      else (None, w\<lparr>files := (files w)(name \<mapsto>
              (case files w name of
                 None \<Rightarrow> \<lparr>content = data, perm = pm\<rparr>
               | Some f \<Rightarrow> f\<lparr>content := data\<rparr>))\<rparr>))"

section \<open>The synchronizer: processMarkdownFile\<close>

text \<open>
  The function is written in its three phases, each a definition of its own, and then as a
  whole. Every \<^verbatim>\<open>return nil, err\<close> of the source is an \<open>Inl\<close> result that leaves the store
  as it was.
\<close>

subsection \<open>Lines 154 to 171: the metadata normalizer\<close>

text \<open>The three conditionals, each on the flag \<^verbatim>\<open>updated\<close> and the document so far.\<close>

definition fillID :: "bool \<times> Document \<Rightarrow> world \<Rightarrow> (error + bool \<times> Document) \<times> world" where
  "fillID st w =
     (case st of (updated, doc) \<Rightarrow>
        if ID (Metadata doc) = []
        then (case RandID w of
                (Inl e, w') \<Rightarrow> (Inl e, w')
              | (Inr i, w') \<Rightarrow> (Inr (True, doc\<lparr>Metadata := (Metadata doc)\<lparr>ID := i\<rparr>\<rparr>), w'))
        else (Inr (updated, doc), w))"

definition fillDate :: "bool \<times> Document \<Rightarrow> world \<Rightarrow> (bool \<times> Document) \<times> world" where
  "fillDate st w =
     (case st of (updated, doc) \<Rightarrow>
        if IsZero (Date (Metadata doc))
        then (case time_Now w of
                (t, w') \<Rightarrow> ((True, doc\<lparr>Metadata := (Metadata doc)\<lparr>Date := time_UTC t\<rparr>\<rparr>), w'))
        else ((updated, doc), w))"

definition fillPath :: "extern \<Rightarrow> bool \<times> Document \<Rightarrow> world \<Rightarrow> (bool \<times> Document) \<times> world" where
  "fillPath X st w =
     (case st of (updated, doc) \<Rightarrow>
        if Path (Metadata doc) = []
        then (case generatePath (unicode_ToLower X) (Title (Metadata doc)) w of
                (p, w') \<Rightarrow> ((True, doc\<lparr>Metadata := (Metadata doc)\<lparr>Path := p\<rparr>\<rparr>), w'))
        else ((updated, doc), w))"

definition normalizeMetadata :: "extern \<Rightarrow> Document \<Rightarrow> world \<Rightarrow> (error + bool \<times> Document) \<times> world" where
  "normalizeMetadata X doc w =
     (case fillID (False, doc) w of
        (Inl e, w1) \<Rightarrow> (Inl e, w1)
      | (Inr st1, w1) \<Rightarrow>
          (case fillDate st1 w1 of
             (st2, w2) \<Rightarrow>
               (case fillPath X st2 w2 of
                  (st3, w3) \<Rightarrow> (Inr st3, w3))))"

subsection \<open>Lines 173 to 204: the write-back\<close>

definition delimiter :: string where
  "delimiter = ''---\<newline>''"

text \<open>Lines 182 to 189: the new source text, from the raw source and the new metadata block.\<close>

definition rewriteFrontMatter :: "string \<Rightarrow> string \<Rightarrow> error + string" where
  "rewriteFrontMatter markdown newMeta =
     (let original = TrimPrefix markdown delimiter in
      case Cut original delimiter of
        (before, origDocument, ok) \<Rightarrow>
          if \<not> ok then Inl ErrInvalidMarkdown
          else Inr (delimiter @ newMeta @ delimiter @ origDocument))"

definition writeBack :: "extern \<Rightarrow> string \<Rightarrow> bool \<Rightarrow> Document \<Rightarrow> world \<Rightarrow> (error + Document) \<times> world" where
  "writeBack X path updated doc w =
     (if updated then
        if Type doc = DocumentTypeMarkdown then
          (case yaml_Marshal X (Metadata doc) of
             Inl e \<Rightarrow> (Inl e, w)
           | Inr newMeta \<Rightarrow>
               (case rewriteFrontMatter (Markdown doc) newMeta of
                  Inl e \<Rightarrow> (Inl e, w)
                | Inr newDocument \<Rightarrow>
                    (case os_Stat X path w of
                       Inl e \<Rightarrow> (Inl e, w)
                     | Inr fStat \<Rightarrow>
                         (case os_WriteFile X path newDocument (perm fStat) w of
                            (Some e, w') \<Rightarrow> (Inl e, w')
                          | (None, w') \<Rightarrow> (Inr (doc\<lparr>Markdown := newDocument\<rparr>), w')))))
        else (Inr doc, w)
      else (Inr doc, w))"

subsection \<open>Lines 206 to 229: the merge into the post store\<close>

text \<open>
  The declarations of \<^verbatim>\<open>GenerationContext\<close> and \<^verbatim>\<open>DataStore\<close> are not part of the two
  source files; their fields are as \<^verbatim>\<open>main\<close> and \<^verbatim>\<open>processMarkdownFile\<close> use them: a
  pointer to the store, and in the store the map from identifiers to pointers to posts.
  The pointers to posts of a store are distinct (the decoder and line 213 each allocate), so
  a post is kept by value under its key.
\<close>

definition newPost :: "string \<Rightarrow> gotime \<Rightarrow> Post" where
  "newPost i now =
     \<lparr>Post_ID = i, FilePath = [], Post_Path = [], Hash = [], CreatedAt = now, UpdatedAt = now,
      Main = None, Translated = Some Map.empty\<rparr>"

text \<open>Lines 222 to 229, on the post found or made.\<close>

definition updatePost :: "hasher \<Rightarrow> Post \<Rightarrow> string \<Rightarrow> Document \<Rightarrow> gotime \<Rightarrow> Post" where
  "updatePost H post path doc now =
     (let hash = Document_Hash H doc;
          post = post\<lparr>FilePath := path, Post_Path := Path (Metadata doc), Main := Some doc\<rparr>
      in if Hash post \<noteq> hash then post\<lparr>Hash := hash, UpdatedAt := now\<rparr> else post)"

definition mergePost :: "hasher \<Rightarrow> GenerationContext \<Rightarrow> string \<Rightarrow> Document \<Rightarrow> gotime \<Rightarrow> panic + GenerationContext" where
  "mergePost H gc path doc now =
     (case DataStore gc of
        None \<Rightarrow> Inl NilDereference
      | Some ds \<Rightarrow>
          (case Posts ds of
             None \<Rightarrow> Inl NilMapWrite
           | Some m \<Rightarrow>
               (case m (ID (Metadata doc)) of
                  Some None \<Rightarrow> Inl NilDereference
                | Some (Some p) \<Rightarrow>
                    Inr (gc\<lparr>DataStore := Some (ds\<lparr>Posts := Some (m(ID (Metadata doc) \<mapsto>
                           Some (updatePost H p path doc now)))\<rparr>)\<rparr>)
                | None \<Rightarrow>
                    Inr (gc\<lparr>DataStore := Some (ds\<lparr>Posts := Some (m(ID (Metadata doc) \<mapsto>
                           Some (updatePost H (newPost (ID (Metadata doc)) now) path doc now)))\<rparr>)\<rparr>))))"

subsection \<open>The whole function\<close>

definition processMarkdownFile ::
  "extern \<Rightarrow> GenerationContext \<Rightarrow> string \<Rightarrow> world \<Rightarrow> (error + Document) \<times> GenerationContext \<times> world" where
  "processMarkdownFile X gc path w =
     (case os_ReadFile X path w of
        Inl e \<Rightarrow> (Inl e, gc, w)
      | Inr data \<Rightarrow>
          (case ParseMarkdown X data of
             Inl e \<Rightarrow> (Inl e, gc, w)
           | Inr doc0 \<Rightarrow>
               (case normalizeMetadata X doc0 w of
                  (Inl e, w1) \<Rightarrow> (Inl e, gc, w1)
                | (Inr (updated, doc1), w1) \<Rightarrow>
                    (case writeBack X path updated doc1 w1 of
                       (Inl e, w2) \<Rightarrow> (Inl e, gc, w2)
                     | (Inr doc, w2) \<Rightarrow>
                         (case time_Now w2 of
                            (now, w3) \<Rightarrow>
                              (case mergePost (hashing X) gc path doc now of
                                 Inl p \<Rightarrow> (Inl (Panic p), gc, w3)
                               | Inr gc' \<Rightarrow> (Inr doc, gc', w3)))))))"

section \<open>The run: generate and main\<close>

text \<open>\<^verbatim>\<open>filepath.Ext\<close>: from the last dot of the last element of the path, or nothing.\<close>

fun extFrom :: "string \<Rightarrow> string \<Rightarrow> string" where
  "extFrom [] acc = []"
| "extFrom (c # r) acc =
     (if c = CHR ''/'' then [] else if c = CHR ''.'' then c # acc else extFrom r (c # acc))"

definition Ext :: "string \<Rightarrow> string" where
  "Ext path = extFrom (rev path) []"

text \<open>
  The loop of \<^verbatim>\<open>generate\<close> (lines 261 to 273): an error of a file is logged and the loop
  goes on; a panic ends the program.
\<close>

fun processFiles ::
  "extern \<Rightarrow> GenerationContext \<Rightarrow> string list \<Rightarrow> world \<Rightarrow> panic option \<times> GenerationContext \<times> world" where
  "processFiles X gc [] w = (None, gc, w)"
| "processFiles X gc (path # list) w =
     (let e = ToLower (unicode_ToLower X) (Ext path) in
      if e = ''.md'' \<or> e = ''.markdown''
      then (case processMarkdownFile X gc path w of
              (Inl (Panic p), gc', w') \<Rightarrow> (Some p, gc', w')
            | (r, gc', w') \<Rightarrow> processFiles X gc' list w')
      else processFiles X gc list w)"

definition generate ::
  "extern \<Rightarrow> GenerationContext \<Rightarrow> world \<Rightarrow> (error option) \<times> GenerationContext \<times> world" where
  "generate X gc w =
     (case stage X w of
        (Inl e, w1) \<Rightarrow> (Some e, gc, w1)
      | (Inr list, w1) \<Rightarrow>
          (case processFiles X gc list w1 of
             (Some p, gc', w2) \<Rightarrow> (Some (Panic p), gc', w2)
           | (None, gc', w2) \<Rightarrow> (None, gc', w2)))"

definition dbFile :: string where
  "dbFile = ''zdata/data.json.zstd''"

text \<open>\<^verbatim>\<open>log.Fatal\<close> ends the process with status 1; \<open>fatal\<close> says at which call.\<close>

datatype fatal =
    FatalStat
  | FatalCreate
  | FatalZstdWriter
  | FatalWrite
  | FatalCloseWriter
  | FatalSeek
  | FatalOpen
  | FatalZstdReader
  | FatalDecode
  | FatalCloseFile
  | FatalCreateTemp
  | FatalEncode
  | FatalRename
  | Crash panic

text \<open>A file that is made gets the permission bits 0644, which is \<open>0x1A4\<close>.\<close>

definition setContent :: "string \<Rightarrow> string \<Rightarrow> world \<Rightarrow> world" where
  "setContent name data w =
     w\<lparr>files := (files w)(name \<mapsto>
          (case files w name of
             None \<Rightarrow> \<lparr>content = data, perm = 0x1A4\<rparr>
           | Some f \<Rightarrow> f\<lparr>content := data\<rparr>))\<rparr>"

text \<open>
  Lines 283 to 320: the snapshot file is opened; one that does not exist is first made,
  with the compressed text of an empty JSON object in it.
\<close>

definition openSnapshot :: "extern \<Rightarrow> world \<Rightarrow> (fatal + unit) \<times> world" where
  "openSnapshot X w =
     (if fails X Stat dbFile then (Inl FatalStat, w)
      else if files w dbFile = None then
        (if fails X Create dbFile then (Inl FatalCreate, w)
         else let w1 = setContent dbFile [] w in
           if fails X NewWriter dbFile then (Inl FatalZstdWriter, w1)
           else if fails X Write dbFile then (Inl FatalWrite, w1)
           else if fails X CloseWriter dbFile then (Inl FatalCloseWriter, w1)
           else let w2 = setContent dbFile (zstd_Compress X ''{}'') w1 in
             if fails X Seek dbFile then (Inl FatalSeek, w2) else (Inr (), w2))
      else (if fails X Open dbFile then (Inl FatalOpen, w) else (Inr (), w)))"

text \<open>Lines 340 to 346: a store and a map of posts are made where the snapshot had none.\<close>

definition normalizeStore :: "DataStore_ptr \<Rightarrow> GenerationContext" where
  "normalizeStore d =
     (let ds = (case d of None \<Rightarrow> \<lparr>Posts = None\<rparr> | Some ds \<Rightarrow> ds);
          ds = (case Posts ds of None \<Rightarrow> ds\<lparr>Posts := Some Map.empty\<rparr> | Some m \<Rightarrow> ds)
      in \<lparr>DataStore = Some ds\<rparr>)"

text \<open>Lines 283 to 346: the load.\<close>

definition load :: "extern \<Rightarrow> world \<Rightarrow> (fatal + GenerationContext) \<times> world" where
  "load X w =
     (case openSnapshot X w of
        (Inl f, w1) \<Rightarrow> (Inl f, w1)
      | (Inr u, w1) \<Rightarrow>
          if fails X NewReader dbFile then (Inl FatalZstdReader, w1)
          else (case snapshot_Decode X (case files w1 dbFile of None \<Rightarrow> [] | Some f \<Rightarrow> content f) of
                  Inl e \<Rightarrow> (Inl FatalDecode, w1)
                | Inr d \<Rightarrow>
                    if fails X Close dbFile then (Inl FatalCloseFile, w1)
                    else (Inr (normalizeStore d), w1)))"

text \<open>
  Lines 350 to 379: the save. Beside its result it gives the states of the file system it
  went through, the first one first: a process that is killed leaves the file system in one
  of them. The temporary file is filled by the writes of the compressor, so any prefix of the
  compressed text may be in it before the file is closed; the rename is one step.
\<close>

definition tempFile :: string where
  "tempFile = dbFile @ ''.tmp''"

definition renameFile :: "string \<Rightarrow> string \<Rightarrow> world \<Rightarrow> world" where
  "renameFile old new w = w\<lparr>files := (files w)(new := files w old, old := None)\<rparr>"

definition fillStates :: "string \<Rightarrow> world \<Rightarrow> world list" where
  "fillStates data w = map (\<lambda>n. setContent tempFile (take n data) w) [0..<Suc (length data)]"

definition saveSteps :: "extern \<Rightarrow> GenerationContext \<Rightarrow> world \<Rightarrow> fatal option \<times> world list" where
  "saveSteps X gc w =
     (if fails X Create tempFile \<or> files w tempFile \<noteq> None then (Some FatalCreateTemp, [w])
      else let w1 = setContent tempFile [] w in
        if fails X NewWriter tempFile then (Some FatalZstdWriter, [w, w1])
        else (case snapshot_Encode X (DataStore gc) of
                Inl e \<Rightarrow> (Some FatalEncode, [w, w1])
              | Inr data \<Rightarrow>
                  if fails X CloseWriter tempFile
                  then (Some FatalCloseWriter, w # fillStates data w)
                  else let w2 = setContent tempFile data w in
                    if fails X Close tempFile then (Some FatalCloseFile, w # fillStates data w)
                    else if fails X Rename tempFile
                    then (Some FatalRename, w # fillStates data w)
                    else (None, w # fillStates data w @ [renameFile tempFile dbFile w2])))"

definition save :: "extern \<Rightarrow> GenerationContext \<Rightarrow> world \<Rightarrow> fatal option \<times> world" where
  "save X gc w = (case saveSteps X gc w of (r, ws) \<Rightarrow> (r, last ws))"

text \<open>
  \<^verbatim>\<open>main\<close>, up to the rename. The result of \<^verbatim>\<open>generate\<close> is not looked at (line 348);
  only a panic in it ends the run. The dump of the store to the standard output after the
  rename is left out.
\<close>

definition main :: "extern \<Rightarrow> world \<Rightarrow> fatal option \<times> world" where
  "main X w =
     (case load X w of
        (Inl f, w1) \<Rightarrow> (Some f, w1)
      | (Inr gc, w1) \<Rightarrow>
          (case generate X gc w1 of
             (Some (Panic p), gc', w2) \<Rightarrow> (Some (Crash p), w2)
           | (r, gc', w2) \<Rightarrow> save X gc' w2))"

section \<open>Observations used in the statements\<close>

text \<open>
  \<open>storeReady\<close>: the store and its map of posts are allocated, as lines 340 to 346 of
  \<^verbatim>\<open>main\<close> leave them. \<open>storeMap\<close>: the map of posts read the way Go reads a map (the
  \<^verbatim>\<open>nil\<close> map has no key). \<open>lastNow\<close>: the latest reading of the clock. \<open>missing\<close>: one of
  the three fields that the normalizer fills is absent.
\<close>

definition storeReady :: "GenerationContext \<Rightarrow> bool" where
  "storeReady gc = (case DataStore gc of None \<Rightarrow> False | Some ds \<Rightarrow> Posts ds \<noteq> None)"

definition storeMap :: "GenerationContext \<Rightarrow> (string \<rightharpoonup> Post ptr)" where
  "storeMap gc =
     (case DataStore gc of
        None \<Rightarrow> Map.empty
      | Some ds \<Rightarrow> (case Posts ds of None \<Rightarrow> Map.empty | Some m \<Rightarrow> m))"

definition lastNow :: "world \<Rightarrow> gotime" where
  "lastNow w = clock w (ticks w - 1)"

definition missing :: "Document \<Rightarrow> bool" where
  "missing doc =
     (ID (Metadata doc) = [] \<or> IsZero (Date (Metadata doc)) \<or> Path (Metadata doc) = [])"







section \<open>Example collaborators and inputs\<close>

text \<open>
  Small stand-ins for the collaborators, to run the model on concrete inputs: a parser that
  reads the fields \<open>id\<close>, \<open>title\<close>, \<open>date\<close> and \<open>path\<close> of a front-matter block, an encoder
  that writes them, a digest of one byte (the length of the input), a codec that knows the
  empty snapshot, and an operating system on which no call fails.
\<close>

definition exField :: "string \<Rightarrow> string \<Rightarrow> string" where
  "exField k data =
     (case Cut data (k @ '': '') of
        (b, a, ok) \<Rightarrow> if ok then fst (Cut a ''\<newline>'') else [])"

definition exTime :: "nat \<Rightarrow> gotime" where
  "exTime n = \<lparr>wall_sec = int n, wall_nsec = 0, zone = Local\<rparr>"

definition exParse :: "string \<Rightarrow> error + Document" where
  "exParse data =
     (if data = [] then Inl ErrParse
      else Inr \<lparr>Type = DocumentTypeMarkdown, Markdown = data, HTML = data,
             Metadata = \<lparr>ID = exField ''id'' data, Title = exField ''title'' data, Author = [],
               Description = [], Date = time_UTC (exTime (length (exField ''date'' data))),
               Path = exField ''path'' data, GoPackage = [], Canonical = [], Hidden = False\<rparr>\<rparr>)"

definition exYaml :: "Metadata \<Rightarrow> error + string" where
  "exYaml g =
     Inr (''id: '' @ ID g @ ''\<newline>title: '' @ Title g @ ''\<newline>date: '' @
          replicate (nat (wall_sec (Date g))) CHR ''d'' @ ''\<newline>path: '' @ Path g @ ''\<newline>'')"

definition exDigest :: "string \<Rightarrow> byte list" where
  "exDigest s = [of_nat (length s)]"

definition exTypeString :: "DocumentType \<Rightarrow> string" where
  "exTypeString t =
     (if t = 0 then ''unknown'' else if t = 1 then ''markdown'' else if t = 2 then ''html''
      else ''DocumentType'')"

definition exHasher :: hasher where
  "exHasher =
     \<lparr>blake3_Sum = exDigest,
      Format_RFC3339 = (\<lambda>t. replicate (nat (wall_sec t)) CHR ''s'' @ ''Z''),
      DocumentType_String = exTypeString\<rparr>"

definition exDecode :: "string \<Rightarrow> error + DataStore_ptr" where
  "exDecode s =
     (if s = ''{}'' then Inr (Some \<lparr>Posts = None\<rparr>)
      else if s = ''null'' then Inr None
      else if s = ''{posts:{}}'' then Inr (Some \<lparr>Posts = Some Map.empty\<rparr>)
      else Inl ErrCodec)"

definition exEncode :: "DataStore_ptr \<Rightarrow> error + string" where
  "exEncode d =
     (case d of
        None \<Rightarrow> Inr ''null''
      | Some ds \<Rightarrow> (case Posts ds of None \<Rightarrow> Inr ''{}'' | Some m \<Rightarrow> Inr ''{posts:{}}''))"

definition exX :: extern where
  "exX =
     \<lparr>ParseMarkdown = exParse, yaml_Marshal = exYaml, hashing = exHasher,
      unicode_ToLower = (\<lambda>s. s), snapshot_Decode = exDecode, snapshot_Encode = exEncode,
      zstd_Compress = (\<lambda>s. s), stage = (\<lambda>w. (Inr [''root/a.md''], w)),
      fails = (\<lambda>c name. False)\<rparr>"

definition exWorld :: "string \<Rightarrow> world" where
  "exWorld src =
     \<lparr>files = [''root/a.md'' \<mapsto> \<lparr>content = src, perm = 0x1A4\<rparr>],
      entropy = map of_nat [1..<32], clock = exTime, ticks = 7\<rparr>"

definition exDoc :: "string \<Rightarrow> Document" where
  "exDoc src =
     \<lparr>Type = DocumentTypeMarkdown, Markdown = src, HTML = [],
      Metadata = \<lparr>ID = [], Title = ''Hello World'', Author = [], Description = [],
        Date = exTime 0, Path = [], GoPackage = [], Canonical = [], Hidden = False\<rparr>\<rparr>"

definition exStore :: GenerationContext where
  "exStore = \<lparr>DataStore = Some \<lparr>Posts = Some Map.empty\<rparr>\<rparr>"

definition exSrc :: string where
  "exSrc = ''---\<newline>title: Hello World\<newline>---\<newline>body''"

definition exSrc1 :: string where
  "exSrc1 = ''---\<newline>id: p1\<newline>title: T\<newline>date: dd\<newline>path: /x\<newline>---\<newline>body''"

definition exDoc1 :: Document where
  "exDoc1 =
     \<lparr>Type = DocumentTypeMarkdown, Markdown = exSrc1, HTML = exSrc1,
      Metadata = \<lparr>ID = ''p1'', Title = ''T'', Author = [], Description = [],
        Date = time_UTC (exTime 2), Path = ''/x'', GoPackage = [], Canonical = [],
        Hidden = False\<rparr>\<rparr>"

definition exPost1 :: Post where
  "exPost1 =
     \<lparr>Post_ID = ''p1'', FilePath = ''root/old.md'', Post_Path = ''/old'', Hash = ''0000'',
      CreatedAt = exTime 1, UpdatedAt = exTime 3, Main = None, Translated = None\<rparr>"

definition exStore1 :: GenerationContext where
  "exStore1 = \<lparr>DataStore = Some \<lparr>Posts = Some [''p1'' \<mapsto> Some exPost1]\<rparr>\<rparr>"

definition exSrc2 :: string where
  "exSrc2 =
     ''---\<newline>id: 0102030405060708090a0b0c0d0e0f10\<newline>title: Hello World\<newline>date: ddddddd\<newline>path: /blog/posts/hello-world-11121314\<newline>---\<newline>body''"

definition exDoc2 :: Document where
  "exDoc2 =
     \<lparr>Type = DocumentTypeMarkdown, Markdown = exSrc2, HTML = exSrc,
      Metadata = \<lparr>ID = ''0102030405060708090a0b0c0d0e0f10'', Title = ''Hello World'',
        Author = [], Description = [], Date = time_UTC (exTime 7),
        Path = ''/blog/posts/hello-world-11121314'', GoPackage = [], Canonical = [],
        Hidden = False\<rparr>\<rparr>"

definition exDoc3 :: Document where
  "exDoc3 = exDoc2\<lparr>HTML := exSrc2\<rparr>"

definition exRun1 :: "(error + Document) \<times> GenerationContext \<times> world" where
  "exRun1 = processMarkdownFile exX exStore ''root/a.md'' (exWorld exSrc)"

text \<open>The second run: on the store and the world that the first run left.\<close>

definition exRun2 :: "(error + Document) \<times> GenerationContext \<times> world" where
  "exRun2 = processMarkdownFile exX (fst (snd exRun1)) ''root/a.md'' (snd (snd exRun1))"

text \<open>
  A hasher whose digest is the text itself, byte for byte: it has no collision at all. And
  two metadata records that differ in two neighbouring fields.
\<close>

definition idDigest :: "string \<Rightarrow> byte list" where
  "idDigest s = map (\<lambda>c. of_nat (of_char c)) s"

definition exIdealHasher :: hasher where
  "exIdealHasher =
     \<lparr>blake3_Sum = idDigest,
      Format_RFC3339 = (\<lambda>t. replicate (nat (wall_sec t)) CHR ''s'' @ ''Z''),
      DocumentType_String = exTypeString\<rparr>"

definition exMetaA :: Metadata where
  "exMetaA =
     \<lparr>ID = ''ab'', Title = ''c'', Author = [], Description = [], Date = exTime 0, Path = [],
      GoPackage = [], Canonical = [], Hidden = False\<rparr>"

definition exMetaB :: Metadata where
  "exMetaB =
     \<lparr>ID = ''a'', Title = ''bc'', Author = [], Description = [], Date = exTime 0, Path = [],
      GoPackage = [], Canonical = [], Hidden = False\<rparr>"

definition exXRename :: extern where
  "exXRename = exX\<lparr>fails := (\<lambda>c name. c = Rename)\<rparr>"

definition exWorldDb :: "string \<Rightarrow> world" where
  "exWorldDb data =
     (exWorld exSrc2)\<lparr>files := (files (exWorld exSrc2))(dbFile \<mapsto> \<lparr>content = data, perm = 0x1A4\<rparr>)\<rparr>"

section \<open>Facts about the string functions\<close>

lemma Cut_ok_iff: "snd (snd (Cut s sep)) \<longleftrightarrow> sublist sep s"
proof (induction s)
  case Nil
  show ?case by simp
next
  case (Cons c t)
  show ?case
  proof (cases "prefix sep (c # t)")
    case True
    then show ?thesis by (simp add: prefix_imp_sublist)
  next
    case False
    with Cons show ?thesis
      by (auto simp: sublist_Cons_right split: prod.splits bool.splits)
  qed
qed

lemma prefix_shorten:
  assumes "prefix sep (xs @ sep @ rest)" and "sep \<noteq> []" and "xs \<noteq> []"
  shows "prefix sep (xs @ butlast sep)"
proof -
  have len: "length sep \<le> length (xs @ butlast sep)"
    using assms(2,3) by (cases xs) auto
  have "xs @ sep @ rest = (xs @ butlast sep) @ (last sep # rest)"
    using assms(2) by simp
  with assms(1) have "prefix sep ((xs @ butlast sep) @ (last sep # rest))" by simp
  with len show ?thesis
    by (metis prefix_append prefix_length_prefix prefixI prefix_order.eq_iff)
qed

lemma Cut_first:
  "\<not> sublist sep (pre @ butlast sep) \<Longrightarrow> Cut (pre @ sep @ rest) sep = (pre, rest, True)"
proof (induction pre)
  case Nil
  then have ne: "sep \<noteq> []" by auto
  then obtain c t where ct: "sep @ rest = c # t" by (cases sep) auto
  have p: "prefix sep (c # t)" using ct by (metis prefixI)
  have d: "drop (length sep) (c # t) = rest" using ct by (metis append_eq_conv_conj)
  have "Cut (c # t) sep = ([], rest, True)"
    using p d by simp
  with ct show ?case by simp
next
  case (Cons a pre)
  then have ne: "sep \<noteq> []" by auto
  from Cons.prems have np: "\<not> prefix sep ((a # pre) @ butlast sep)"
    using prefix_imp_sublist by blast
  then have np': "\<not> prefix sep (a # pre @ sep @ rest)"
    using prefix_shorten [OF _ ne, of "a # pre" rest] by auto
  from Cons.prems have "\<not> sublist sep (pre @ butlast sep)"
    by (simp add: sublist_Cons_right)
  then have "Cut (pre @ sep @ rest) sep = (pre, rest, True)" by (rule Cons.IH)
  with np' show ?case by simp
qed

section \<open>The write-back and its delimiter check\<close>

lemma rewriteFrontMatter_error_iff:
  "rewriteFrontMatter src newMeta = Inl e \<longleftrightarrow>
     e = ErrInvalidMarkdown \<and> \<not> sublist delimiter (TrimPrefix src delimiter)"
  using Cut_ok_iff [of "TrimPrefix src delimiter" delimiter]
  by (auto simp: rewriteFrontMatter_def Let_def split: prod.splits)

lemma rewriteFrontMatter_first:
  assumes "\<not> HasPrefix src delimiter" and "src = pre @ delimiter @ rest"
    and "\<not> sublist delimiter (pre @ butlast delimiter)"
  shows "rewriteFrontMatter src newMeta = Inr (delimiter @ newMeta @ delimiter @ rest)"
proof -
  have "TrimPrefix src delimiter = pre @ delimiter @ rest"
    using assms(1,2) by (simp add: TrimPrefix_def)
  then show ?thesis
    using Cut_first [OF assms(3), of rest] by (simp add: rewriteFrontMatter_def)
qed

lemma writeBack_writes:
  assumes "Type doc = DocumentTypeMarkdown" and "yaml_Marshal X (Metadata doc) = Inr newMeta"
    and "rewriteFrontMatter (Markdown doc) newMeta = Inr newDocument"
    and "files w path = Some f" and "\<not> fails X Stat path" and "\<not> fails X WriteFile path"
  shows "writeBack X path True doc w =
           (Inr (doc\<lparr>Markdown := newDocument\<rparr>),
            w\<lparr>files := (files w)(path \<mapsto> f\<lparr>content := newDocument\<rparr>)\<rparr>)"
  using assms by (simp add: writeBack_def os_Stat_def os_WriteFile_def)

text \<open>
  Claim C10. The delimiter check of the write-back is lax. The rewrite of the source text
  fails, with \<open>ErrInvalidMarkdown\<close>, exactly when the line \<^verbatim>\<open>---\<close> occurs nowhere in the
  source after one leading delimiter line has been stripped. When the source does not begin
  with the delimiter but has it later, first right after the bytes \<open>pre\<close>, the rewrite
  succeeds and the new text is the delimiter, the new metadata block, the delimiter and what
  followed the first occurrence: every byte of \<open>pre\<close> is gone. With the metadata encoded and
  no failing system call, this text is what the write-back puts into the file.
\<close>

theorem C10_lax_delimiter_check:
  "(rewriteFrontMatter src newMeta = Inl ErrInvalidMarkdown \<longleftrightarrow>
      \<not> sublist delimiter (TrimPrefix src delimiter)) \<and>
   (\<not> HasPrefix src delimiter \<and> src = pre @ delimiter @ rest \<and>
    \<not> sublist delimiter (pre @ butlast delimiter) \<longrightarrow>
      rewriteFrontMatter src newMeta = Inr (delimiter @ newMeta @ delimiter @ rest) \<and>
      (Type doc = DocumentTypeMarkdown \<and> Markdown doc = src \<and>
       yaml_Marshal X (Metadata doc) = Inr newMeta \<and> files w path = Some f \<and>
       \<not> fails X Stat path \<and> \<not> fails X WriteFile path \<longrightarrow>
         writeBack X path True doc w =
           (Inr (doc\<lparr>Markdown := delimiter @ newMeta @ delimiter @ rest\<rparr>),
            w\<lparr>files := (files w)(path \<mapsto>
                 f\<lparr>content := delimiter @ newMeta @ delimiter @ rest\<rparr>)\<rparr>)))"
proof (intro conjI impI)
  show "rewriteFrontMatter src newMeta = Inl ErrInvalidMarkdown \<longleftrightarrow>
      \<not> sublist delimiter (TrimPrefix src delimiter)"
    by (simp add: rewriteFrontMatter_error_iff)
next
  assume a: "\<not> HasPrefix src delimiter \<and> src = pre @ delimiter @ rest \<and>
    \<not> sublist delimiter (pre @ butlast delimiter)"
  then show r: "rewriteFrontMatter src newMeta = Inr (delimiter @ newMeta @ delimiter @ rest)"
    using rewriteFrontMatter_first by blast
  assume b: "Type doc = DocumentTypeMarkdown \<and> Markdown doc = src \<and>
       yaml_Marshal X (Metadata doc) = Inr newMeta \<and> files w path = Some f \<and>
       \<not> fails X Stat path \<and> \<not> fails X WriteFile path"
  with r show "writeBack X path True doc w =
           (Inr (doc\<lparr>Markdown := delimiter @ newMeta @ delimiter @ rest\<rparr>),
            w\<lparr>files := (files w)(path \<mapsto>
                 f\<lparr>content := delimiter @ newMeta @ delimiter @ rest\<rparr>)\<rparr>)"
    using writeBack_writes [of doc X newMeta _ w path f] by simp
qed

theorem C10_witness:
  "rewriteFrontMatter ''no front matter'' ''id: 1\<newline>'' = Inl ErrInvalidMarkdown \<and>
   rewriteFrontMatter (''intro\<newline>'' @ delimiter @ ''body'') ''id: 1\<newline>'' =
     Inr (delimiter @ ''id: 1\<newline>'' @ delimiter @ ''body'') \<and>
   fst (writeBack exX ''root/a.md'' True (exDoc (''intro\<newline>'' @ delimiter @ ''body''))
          (exWorld (''intro\<newline>'' @ delimiter @ ''body''))) =
     Inr ((exDoc (''intro\<newline>'' @ delimiter @ ''body''))
            \<lparr>Markdown := delimiter @ ''id: \<newline>title: Hello World\<newline>date: \<newline>path: \<newline>'' @ delimiter @ ''body''\<rparr>)"
proof -
  have h1: "\<not> sublist delimiter (TrimPrefix ''no front matter'' delimiter)"
    by code_simp
  have h2: "\<not> HasPrefix (''intro\<newline>'' @ delimiter @ ''body'') delimiter"
    by code_simp
  have h3: "\<not> sublist delimiter (''intro\<newline>'' @ butlast delimiter)"
    by code_simp
  have h4: "Type (exDoc (''intro\<newline>'' @ delimiter @ ''body'')) = DocumentTypeMarkdown \<and>
     Markdown (exDoc (''intro\<newline>'' @ delimiter @ ''body'')) = ''intro\<newline>'' @ delimiter @ ''body'' \<and>
     yaml_Marshal exX (Metadata (exDoc (''intro\<newline>'' @ delimiter @ ''body''))) =
       Inr ''id: \<newline>title: Hello World\<newline>date: \<newline>path: \<newline>'' \<and>
     files (exWorld (''intro\<newline>'' @ delimiter @ ''body'')) ''root/a.md'' =
       Some \<lparr>content = ''intro\<newline>'' @ delimiter @ ''body'', perm = 0x1A4\<rparr> \<and>
     \<not> fails exX Stat ''root/a.md'' \<and> \<not> fails exX WriteFile ''root/a.md''"
    by (simp add: exDoc_def exX_def exYaml_def exWorld_def exTime_def)
  show ?thesis
    using C10_lax_delimiter_check [of "''no front matter''" "''id: 1\<newline>''"]
      C10_lax_delimiter_check [of "''intro\<newline>'' @ delimiter @ ''body''" "''id: 1\<newline>''"
        "''intro\<newline>''" "''body''"]
      C10_lax_delimiter_check [of "''intro\<newline>'' @ delimiter @ ''body''"
        "''id: \<newline>title: Hello World\<newline>date: \<newline>path: \<newline>''"
        "''intro\<newline>''" "''body''" "exDoc (''intro\<newline>'' @ delimiter @ ''body'')" exX
        "exWorld (''intro\<newline>'' @ delimiter @ ''body'')" "''root/a.md''"
        "\<lparr>content = ''intro\<newline>'' @ delimiter @ ''body'', perm = 0x1A4\<rparr>"]
      h1 h2 h3 h4
    by simp
qed

section \<open>Facts about the entropy source and the normalizer\<close>

lemma RandID_Inr:
  "RandID w = (Inr i, w') \<longleftrightarrow>
     16 \<le> length (entropy w) \<and> i = EncodeToString (take 16 (entropy w)) \<and>
     w' = w\<lparr>entropy := drop 16 (entropy w)\<rparr>"
  by (auto simp: RandID_def rand_Read_def split: if_splits prod.splits)

lemma RandID_Inl:
  "RandID w = (Inl e, w') \<longleftrightarrow>
     length (entropy w) < 16 \<and> e = Panic RandIDFailed \<and> w' = w\<lparr>entropy := []\<rparr>"
  by (auto simp: RandID_def rand_Read_def split: if_splits prod.splits)

lemma generatePath_snd:
  "snd (generatePath U title w) = w\<lparr>entropy := drop 4 (entropy w)\<rparr>"
  by (simp add: generatePath_def rand_Read_def split: prod.splits)

lemma generatePath_entropy_only:
  "entropy w = entropy v \<Longrightarrow> fst (generatePath U title w) = fst (generatePath U title v)"
  by (auto simp: generatePath_def rand_Read_def split: if_splits prod.splits)

lemma fillID_Inr:
  "fillID (u, doc) w = (Inr (u', doc'), w') \<longleftrightarrow>
     (if ID (Metadata doc) = []
      then 16 \<le> length (entropy w) \<and> u' \<and>
           doc' = doc\<lparr>Metadata := (Metadata doc)\<lparr>ID := EncodeToString (take 16 (entropy w))\<rparr>\<rparr> \<and>
           w' = w\<lparr>entropy := drop 16 (entropy w)\<rparr>
      else u' = u \<and> doc' = doc \<and> w' = w)"
  by (auto simp: fillID_def RandID_Inr RandID_Inl split: sum.splits prod.splits)

lemma fillID_Inl:
  "fillID (u, doc) w = (Inl e, w') \<longleftrightarrow>
     ID (Metadata doc) = [] \<and> length (entropy w) < 16 \<and> e = Panic RandIDFailed \<and>
     w' = w\<lparr>entropy := []\<rparr>"
  by (auto simp: fillID_def RandID_Inr RandID_Inl split: sum.splits prod.splits)

lemma fillDate_eq:
  "fillDate (u, doc) w =
     (if IsZero (Date (Metadata doc))
      then ((True, doc\<lparr>Metadata := (Metadata doc)\<lparr>Date := time_UTC (clock w (ticks w))\<rparr>\<rparr>),
            w\<lparr>ticks := Suc (ticks w)\<rparr>)
      else ((u, doc), w))"
  by (simp add: fillDate_def time_Now_def)

lemma fillPath_eq:
  "fillPath X (u, doc) w =
     (if Path (Metadata doc) = []
      then ((True, doc\<lparr>Metadata := (Metadata doc)\<lparr>Path :=
               fst (generatePath (unicode_ToLower X) (Title (Metadata doc)) w)\<rparr>\<rparr>),
            w\<lparr>entropy := drop 4 (entropy w)\<rparr>)
      else ((u, doc), w))"
proof (cases "generatePath (unicode_ToLower X) (Title (Metadata doc)) w")
  case (Pair p w1)
  then show ?thesis
    using generatePath_snd [of "unicode_ToLower X" "Title (Metadata doc)" w]
    by (simp add: fillPath_def)
qed

lemma normalizeMetadata_Inl:
  "normalizeMetadata X doc w = (Inl e, w') \<longleftrightarrow>
     ID (Metadata doc) = [] \<and> length (entropy w) < 16 \<and> e = Panic RandIDFailed \<and>
     w' = w\<lparr>entropy := []\<rparr>"
proof (cases "fillID (False, doc) w")
  case (Pair r w1)
  show ?thesis
  proof (cases r)
    case (Inl e1)
    with Pair show ?thesis
      using fillID_Inl [of False doc w e1 w1] by (auto simp: normalizeMetadata_def)
  next
    case (Inr st)
    obtain u d where st: "st = (u, d)" by (cases st)
    from Pair Inr st have "fillID (False, doc) w = (Inr (u, d), w1)" by simp
    then have "\<not> (ID (Metadata doc) = [] \<and> length (entropy w) < 16)"
      by (auto simp: fillID_Inr split: if_splits)
    with Pair Inr show ?thesis
      by (auto simp: normalizeMetadata_def split: prod.splits)
  qed
qed

lemma normalizeMetadata_fills:
  assumes "normalizeMetadata X doc w = (Inr (u, doc'), w')"
  shows "u = missing doc"
    and "ID (Metadata doc') =
          (if ID (Metadata doc) = [] then EncodeToString (take 16 (entropy w))
           else ID (Metadata doc))"
    and "Date (Metadata doc') =
          (if IsZero (Date (Metadata doc)) then time_UTC (clock w (ticks w))
           else Date (Metadata doc))"
    and "Path (Metadata doc') =
          (if Path (Metadata doc) = []
           then fst (generatePath (unicode_ToLower X) (Title (Metadata doc))
                  (w\<lparr>entropy := (if ID (Metadata doc) = [] then drop 16 (entropy w) else entropy w)\<rparr>))
           else Path (Metadata doc))"
    and "doc'\<lparr>Metadata := (Metadata doc')\<lparr>ID := ID (Metadata doc), Date := Date (Metadata doc),
            Path := Path (Metadata doc)\<rparr>\<rparr> = doc"
    and "files w' = files w" and "clock w' = clock w"
    and "ticks w' = ticks w + (if IsZero (Date (Metadata doc)) then 1 else 0)"
    and "entropy w' =
          drop ((if ID (Metadata doc) = [] then 16 else 0) + (if Path (Metadata doc) = [] then 4 else 0))
            (entropy w)"
    and "ID (Metadata doc) = [] \<longrightarrow> 16 \<le> length (entropy w)"
proof -
  obtain u1 d1 w1 where f1: "fillID (False, doc) w = (Inr (u1, d1), w1)"
    using assms by (auto simp: normalizeMetadata_def split: sum.splits prod.splits)
  obtain u2 d2 w2 where f2: "fillDate (u1, d1) w1 = ((u2, d2), w2)"
    by (metis surj_pair)
  have f3: "fillPath X (u2, d2) w2 = ((u, doc'), w')"
    using assms f1 f2 by (simp add: normalizeMetadata_def split: prod.splits)
  have e1: "u1 = (ID (Metadata doc) = [])"
    "d1 = (if ID (Metadata doc) = []
           then doc\<lparr>Metadata := (Metadata doc)\<lparr>ID := EncodeToString (take 16 (entropy w))\<rparr>\<rparr>
           else doc)"
    "w1 = (if ID (Metadata doc) = [] then w\<lparr>entropy := drop 16 (entropy w)\<rparr> else w)"
    "ID (Metadata doc) = [] \<longrightarrow> 16 \<le> length (entropy w)"
    using f1 [unfolded fillID_Inr] by (simp_all split: if_splits)
  have e2: "u2 = (u1 \<or> IsZero (Date (Metadata d1)))"
    "d2 = (if IsZero (Date (Metadata d1))
           then d1\<lparr>Metadata := (Metadata d1)\<lparr>Date := time_UTC (clock w1 (ticks w1))\<rparr>\<rparr>
           else d1)"
    "w2 = (if IsZero (Date (Metadata d1)) then w1\<lparr>ticks := Suc (ticks w1)\<rparr> else w1)"
    using f2 [unfolded fillDate_eq] by (simp_all split: if_splits)
  have e3: "u = (u2 \<or> Path (Metadata d2) = [])"
    "doc' = (if Path (Metadata d2) = []
             then d2\<lparr>Metadata := (Metadata d2)\<lparr>Path :=
                    fst (generatePath (unicode_ToLower X) (Title (Metadata d2)) w2)\<rparr>\<rparr>
             else d2)"
    "w' = (if Path (Metadata d2) = [] then w2\<lparr>entropy := drop 4 (entropy w2)\<rparr> else w2)"
    using f3 [unfolded fillPath_eq] by (simp_all split: if_splits)
  have m1: "Date (Metadata d1) = Date (Metadata doc)" "Path (Metadata d1) = Path (Metadata doc)"
    "Title (Metadata d1) = Title (Metadata doc)"
    "clock w1 = clock w" "ticks w1 = ticks w" "files w1 = files w"
    by (simp_all add: e1)
  have m2: "Path (Metadata d2) = Path (Metadata doc)" "Title (Metadata d2) = Title (Metadata doc)"
    "ID (Metadata d2) = ID (Metadata d1)" "entropy w2 = entropy w1" "files w2 = files w"
    "clock w2 = clock w"
    by (simp_all add: e2 m1)
  have ge: "fst (generatePath (unicode_ToLower X) (Title (Metadata doc)) w2) =
        fst (generatePath (unicode_ToLower X) (Title (Metadata doc))
          (w\<lparr>entropy := (if ID (Metadata doc) = [] then drop 16 (entropy w) else entropy w)\<rparr>))"
    by (rule generatePath_entropy_only) (simp add: m2 e1)
  show "u = missing doc"
    by (simp add: e3 e2 e1 m1 m2 missing_def)
  show "ID (Metadata doc') =
          (if ID (Metadata doc) = [] then EncodeToString (take 16 (entropy w))
           else ID (Metadata doc))"
    by (simp add: e3 m2 e1)
  show "Date (Metadata doc') =
          (if IsZero (Date (Metadata doc)) then time_UTC (clock w (ticks w))
           else Date (Metadata doc))"
    by (simp add: e3 e2 m1)
  show "Path (Metadata doc') =
          (if Path (Metadata doc) = []
           then fst (generatePath (unicode_ToLower X) (Title (Metadata doc))
                  (w\<lparr>entropy := (if ID (Metadata doc) = [] then drop 16 (entropy w) else entropy w)\<rparr>))
           else Path (Metadata doc))"
    using ge by (simp add: e3 m2)
  show "doc'\<lparr>Metadata := (Metadata doc')\<lparr>ID := ID (Metadata doc), Date := Date (Metadata doc),
            Path := Path (Metadata doc)\<rparr>\<rparr> = doc"
    by (simp add: e3 m2 e2 m1 e1)
  show "files w' = files w" by (simp add: e3 m2)
  show "clock w' = clock w" by (simp add: e3 m2)
  show "ticks w' = ticks w + (if IsZero (Date (Metadata doc)) then 1 else 0)"
    by (simp add: e3 e2 m1)
  show "entropy w' =
          drop ((if ID (Metadata doc) = [] then 16 else 0) + (if Path (Metadata doc) = [] then 4 else 0))
            (entropy w)"
    by (simp add: e3 m2 e1 add.commute)
  show "ID (Metadata doc) = [] \<longrightarrow> 16 \<le> length (entropy w)"
    by (rule e1)
qed

section \<open>Facts about the write-back, the merge and the whole function\<close>

lemma writeBack_Inl:
  "writeBack X path u doc w = (Inl e, w') \<Longrightarrow> w' = w"
  by (auto simp: writeBack_def os_WriteFile_def split: if_splits sum.splits prod.splits option.splits)

lemma writeBack_skip:
  "\<not> (u \<and> Type doc = DocumentTypeMarkdown) \<Longrightarrow> writeBack X path u doc w = (Inr doc, w)"
  by (auto simp: writeBack_def)

lemma writeBack_Inr:
  assumes "writeBack X path u doc w = (Inr doc', w')"
  shows "Metadata doc' = Metadata doc" and "Type doc' = Type doc" and "HTML doc' = HTML doc"
    and "entropy w' = entropy w" and "clock w' = clock w" and "ticks w' = ticks w"
    and "files w' \<noteq> files w \<longrightarrow> u \<and> Type doc = DocumentTypeMarkdown"
  using assms
  by (auto simp: writeBack_def os_WriteFile_def
      split: if_splits sum.splits prod.splits option.splits)

lemma mergePost_storeReady:
  "mergePost H gc path doc now = Inr gc' \<Longrightarrow> storeReady gc \<and> storeReady gc'"
  by (auto simp: mergePost_def storeReady_def split: option.splits)

lemma mergePost_storeMap:
  assumes "mergePost H gc path doc now = Inr gc'"
  shows "storeMap gc' =
           (storeMap gc)(ID (Metadata doc) \<mapsto>
              Some (updatePost H
                (case storeMap gc (ID (Metadata doc)) of
                   Some (Some p) \<Rightarrow> p
                 | _ \<Rightarrow> newPost (ID (Metadata doc)) now) path doc now))"
  using assms by (auto simp: mergePost_def storeMap_def split: option.splits)

lemma mergePost_Inl:
  "mergePost H gc path doc now = Inl p \<longleftrightarrow>
     (\<not> storeReady gc \<and> p = (if DataStore gc = None then NilDereference else NilMapWrite)) \<or>
     (storeReady gc \<and> storeMap gc (ID (Metadata doc)) = Some None \<and> p = NilDereference)"
  by (auto simp: mergePost_def storeMap_def storeReady_def split: option.splits)

lemma processMarkdownFile_Inr:
  assumes "processMarkdownFile X gc path w = (Inr doc, gc', w')"
  obtains data doc0 u doc1 w1 w2 where
    "os_ReadFile X path w = Inr data" and "ParseMarkdown X data = Inr doc0"
    and "normalizeMetadata X doc0 w = (Inr (u, doc1), w1)"
    and "writeBack X path u doc1 w1 = (Inr doc, w2)"
    and "mergePost (hashing X) gc path doc (clock w2 (ticks w2)) = Inr gc'"
    and "w' = w2\<lparr>ticks := Suc (ticks w2)\<rparr>"
  using assms
  by (auto simp: processMarkdownFile_def time_Now_def split: sum.splits prod.splits)

lemma processMarkdownFile_Inl:
  "processMarkdownFile X gc path w = (Inl e, gc', w') \<Longrightarrow> gc' = gc"
  by (auto simp: processMarkdownFile_def split: sum.splits prod.splits)

lemma processMarkdownFile_lastNow:
  assumes "processMarkdownFile X gc path w = (Inr doc, gc', w')"
  obtains data doc0 u doc1 w1 w2 where
    "os_ReadFile X path w = Inr data" and "ParseMarkdown X data = Inr doc0"
    and "normalizeMetadata X doc0 w = (Inr (u, doc1), w1)"
    and "writeBack X path u doc1 w1 = (Inr doc, w2)"
    and "mergePost (hashing X) gc path doc (lastNow w') = Inr gc'"
    and "w' = w2\<lparr>ticks := Suc (ticks w2)\<rparr>"
proof -
  from assms obtain data doc0 u doc1 w1 w2 where
    h: "os_ReadFile X path w = Inr data" "ParseMarkdown X data = Inr doc0"
      "normalizeMetadata X doc0 w = (Inr (u, doc1), w1)"
      "writeBack X path u doc1 w1 = (Inr doc, w2)"
      "mergePost (hashing X) gc path doc (clock w2 (ticks w2)) = Inr gc'"
      "w' = w2\<lparr>ticks := Suc (ticks w2)\<rparr>"
    by (rule processMarkdownFile_Inr)
  have "lastNow w' = clock w2 (ticks w2)" by (simp add: h(6) lastNow_def)
  with h that show thesis by simp
qed

lemma processMarkdownFile_merge:
  assumes "processMarkdownFile X gc path w = (Inr doc, gc', w')"
  shows "mergePost (hashing X) gc path doc (lastNow w') = Inr gc'"
  using assms by (rule processMarkdownFile_lastNow)

section \<open>The claims about the synchronizer\<close>

lemma processMarkdownFile_invalid:
  assumes "processMarkdownFile X gc path w = (Inl ErrInvalidMarkdown, gc', w')"
  shows "files w' = files w"
proof (cases "os_ReadFile X path w")
  case (Inl e)
  with assms show ?thesis by (simp add: processMarkdownFile_def)
next
  case (Inr data)
  note rd = this
  show ?thesis
  proof (cases "ParseMarkdown X data")
    case (Inl e)
    with assms rd show ?thesis by (simp add: processMarkdownFile_def)
  next
    case (Inr doc0)
    note ps = this
    obtain r1 w1 where n: "normalizeMetadata X doc0 w = (r1, w1)" by (metis surj_pair)
    show ?thesis
    proof (cases r1)
      case (Inl e)
      with n have "files w1 = files w" by (simp add: normalizeMetadata_Inl)
      with assms rd ps n Inl show ?thesis by (simp add: processMarkdownFile_def)
    next
      case (Inr st)
      obtain u doc1 where st: "st = (u, doc1)" by (cases st)
      from n Inr st have n': "normalizeMetadata X doc0 w = (Inr (u, doc1), w1)" by simp
      then have f1: "files w1 = files w" by (rule normalizeMetadata_fills)
      obtain r2 w2 where wb: "writeBack X path u doc1 w1 = (r2, w2)" by (metis surj_pair)
      show ?thesis
      proof (cases r2)
        case (Inl e)
        with wb have "w2 = w1" using writeBack_Inl by blast
        with assms rd ps n' wb Inl f1 show ?thesis by (simp add: processMarkdownFile_def)
      next
        case (Inr doc)
        with assms rd ps n' wb show ?thesis
          by (simp add: processMarkdownFile_def time_Now_def split: sum.splits)
      qed
    qed
  qed
qed

text \<open>
  Claim C1, as the code has it. The claim says that after the write-back has failed with
  \<open>ErrInvalidMarkdown\<close> the store is still updated and the file counts as processed. The
  code returns at line 186: the function gives the error, no file is written, and the
  store is what it was. The second part says when that happens: a field was filled in, the
  document is markdown, its metadata was encoded, and the raw source has no delimiter line
  after one leading delimiter line is stripped.
\<close>

theorem C1_invalid_source_format_returns:
  "(processMarkdownFile X gc path w = (Inl ErrInvalidMarkdown, gc', w') \<longrightarrow>
      gc' = gc \<and> files w' = files w) \<and>
   (os_ReadFile X path w = Inr data \<and> ParseMarkdown X data = Inr doc0 \<and>
    normalizeMetadata X doc0 w = (Inr (True, doc1), w1) \<and>
    Type doc1 = DocumentTypeMarkdown \<and> yaml_Marshal X (Metadata doc1) = Inr newMeta \<and>
    \<not> sublist delimiter (TrimPrefix (Markdown doc1) delimiter) \<longrightarrow>
      processMarkdownFile X gc path w = (Inl ErrInvalidMarkdown, gc, w1) \<and> files w1 = files w)"
proof (intro conjI impI)
  assume a: "processMarkdownFile X gc path w = (Inl ErrInvalidMarkdown, gc', w')"
  then show "gc' = gc" by (rule processMarkdownFile_Inl)
  from a show "files w' = files w" by (rule processMarkdownFile_invalid)
next
  assume a: "os_ReadFile X path w = Inr data \<and> ParseMarkdown X data = Inr doc0 \<and>
    normalizeMetadata X doc0 w = (Inr (True, doc1), w1) \<and>
    Type doc1 = DocumentTypeMarkdown \<and> yaml_Marshal X (Metadata doc1) = Inr newMeta \<and>
    \<not> sublist delimiter (TrimPrefix (Markdown doc1) delimiter)"
  then have "rewriteFrontMatter (Markdown doc1) newMeta = Inl ErrInvalidMarkdown"
    by (simp add: rewriteFrontMatter_error_iff)
  with a have "writeBack X path True doc1 w1 = (Inl ErrInvalidMarkdown, w1)"
    by (simp add: writeBack_def)
  with a show "processMarkdownFile X gc path w = (Inl ErrInvalidMarkdown, gc, w1)"
    by (simp add: processMarkdownFile_def)
  from a show "files w1 = files w" using normalizeMetadata_fills(6) by blast
qed

theorem C1_witness:
  "fst (snd (processMarkdownFile exX exStore ''root/a.md'' (exWorld ''title: Hello World body''))) =
     exStore \<and>
   files (snd (snd (processMarkdownFile exX exStore ''root/a.md''
     (exWorld ''title: Hello World body'')))) = files (exWorld ''title: Hello World body'')"
proof -
  have a: "fst (processMarkdownFile exX exStore ''root/a.md'' (exWorld ''title: Hello World body'')) =
      Inl ErrInvalidMarkdown"
    by code_simp
  have "processMarkdownFile exX exStore ''root/a.md'' (exWorld ''title: Hello World body'') =
      (Inl ErrInvalidMarkdown,
       fst (snd (processMarkdownFile exX exStore ''root/a.md'' (exWorld ''title: Hello World body''))),
       snd (snd (processMarkdownFile exX exStore ''root/a.md'' (exWorld ''title: Hello World body''))))"
    using a by (metis prod.collapse)
  then show ?thesis
    using C1_invalid_source_format_returns [of exX exStore "''root/a.md''"
        "exWorld ''title: Hello World body''"] by blast
qed

theorem C1_counterexample:
  "fst (processMarkdownFile exX exStore ''root/a.md'' (exWorld ''title: Hello World body'')) =
     Inl ErrInvalidMarkdown \<and>
   storeMap (fst (snd (processMarkdownFile exX exStore ''root/a.md''
     (exWorld ''title: Hello World body'')))) ''0102030405060708090a0b0c0d0e0f10'' = None"
  by code_simp

text \<open>
  Claim C2. A sync that returns a document whose identifier is the key of a post \<open>p\<close> of
  the store leaves under that key the post \<open>p\<close> with \<open>FilePath\<close> the path of the file,
  \<open>Post_Path\<close> the path of the document's metadata and \<open>Main\<close> the document; when the digest
  of the document differs from \<open>Hash p\<close>, the digest is stored and \<open>UpdatedAt\<close> is the
  reading of the clock taken at line 206; when it is the same, \<open>Hash\<close> and \<open>UpdatedAt\<close>
  (and every other field) are those of \<open>p\<close>.
\<close>

theorem C2_existing_post_merge:
  "processMarkdownFile X gc path w = (Inr doc, gc', w') \<and>
   storeMap gc (ID (Metadata doc)) = Some (Some p) \<longrightarrow>
     storeMap gc' (ID (Metadata doc)) =
       Some (Some
         (if Document_Hash (hashing X) doc \<noteq> Hash p
          then p\<lparr>FilePath := path, Post_Path := Path (Metadata doc), Main := Some doc,
                 Hash := Document_Hash (hashing X) doc, UpdatedAt := lastNow w'\<rparr>
          else p\<lparr>FilePath := path, Post_Path := Path (Metadata doc), Main := Some doc\<rparr>))"
proof
  assume a: "processMarkdownFile X gc path w = (Inr doc, gc', w') \<and>
    storeMap gc (ID (Metadata doc)) = Some (Some p)"
  then have m: "mergePost (hashing X) gc path doc (lastNow w') = Inr gc'"
    using processMarkdownFile_merge by blast
  show "storeMap gc' (ID (Metadata doc)) =
       Some (Some
         (if Document_Hash (hashing X) doc \<noteq> Hash p
          then p\<lparr>FilePath := path, Post_Path := Path (Metadata doc), Main := Some doc,
                 Hash := Document_Hash (hashing X) doc, UpdatedAt := lastNow w'\<rparr>
          else p\<lparr>FilePath := path, Post_Path := Path (Metadata doc), Main := Some doc\<rparr>))"
    using a by (simp add: mergePost_storeMap [OF m] updatePost_def Let_def)
qed

theorem C2_witness:
  "storeMap (fst (snd (processMarkdownFile exX exStore1 ''root/a.md'' (exWorld exSrc1)))) ''p1'' =
     Some (Some (exPost1\<lparr>FilePath := ''root/a.md'', Post_Path := ''/x'', Main := Some exDoc1,
       Hash := Document_Hash exHasher exDoc1, UpdatedAt := exTime 7\<rparr>))"
proof -
  have a: "fst (processMarkdownFile exX exStore1 ''root/a.md'' (exWorld exSrc1)) = Inr exDoc1"
    by code_simp
  have b: "processMarkdownFile exX exStore1 ''root/a.md'' (exWorld exSrc1) =
      (Inr exDoc1,
       fst (snd (processMarkdownFile exX exStore1 ''root/a.md'' (exWorld exSrc1))),
       snd (snd (processMarkdownFile exX exStore1 ''root/a.md'' (exWorld exSrc1))))"
    using a by (metis prod.collapse)
  have c: "storeMap exStore1 (ID (Metadata exDoc1)) = Some (Some exPost1)"
    by (simp add: storeMap_def exStore1_def exDoc1_def)
  have d: "lastNow (snd (snd (processMarkdownFile exX exStore1 ''root/a.md'' (exWorld exSrc1)))) =
      exTime 7"
    by code_simp
  have e: "Document_Hash (hashing exX) exDoc1 \<noteq> Hash exPost1"
    by code_simp
  have f: "ID (Metadata exDoc1) = ''p1''" "Path (Metadata exDoc1) = ''/x''" "hashing exX = exHasher"
    by (simp_all add: exDoc1_def exX_def)
  show ?thesis
    using C2_existing_post_merge [of exX exStore1 "''root/a.md''" "exWorld exSrc1" exDoc1
        "fst (snd (processMarkdownFile exX exStore1 ''root/a.md'' (exWorld exSrc1)))"
        "snd (snd (processMarkdownFile exX exStore1 ''root/a.md'' (exWorld exSrc1)))" exPost1]
      b c d e
    by (simp add: f)
qed

lemma processMarkdownFile_keeps_posts:
  assumes "processMarkdownFile X gc path w = (r, gc', w')"
    and "storeMap gc k = Some (Some p)"
  shows "\<exists>p'. storeMap gc' k = Some (Some p') \<and> CreatedAt p' = CreatedAt p \<and>
           Post_ID p' = Post_ID p \<and> Translated p' = Translated p"
proof (cases r)
  case (Inl e)
  with assms(1) have "gc' = gc" using processMarkdownFile_Inl by blast
  with assms(2) show ?thesis by simp
next
  case (Inr doc)
  with assms(1) have m: "mergePost (hashing X) gc path doc (lastNow w') = Inr gc'"
    using processMarkdownFile_merge by blast
  show ?thesis
    using assms(2)
    by (cases "k = ID (Metadata doc)")
      (simp_all add: mergePost_storeMap [OF m] updatePost_def Let_def)
qed

text \<open>
  Claim C3. A sync that returns a document whose identifier is not a key of the store puts
  under that key a post with the identifier of the document, the path of the file, the
  path and the digest of the document, the document as \<open>Main\<close>, an empty map of
  translations, and \<open>CreatedAt\<close> and \<open>UpdatedAt\<close> both the reading of the clock taken at
  line 206. And no sync, of the same identifier or another and whatever it returns, changes
  \<open>CreatedAt\<close> of a post that is in the store.
\<close>

theorem C3_new_post_created:
  "(processMarkdownFile X gc path w = (Inr doc, gc', w') \<and>
    storeMap gc (ID (Metadata doc)) = None \<longrightarrow>
      storeMap gc' (ID (Metadata doc)) =
        Some (Some \<lparr>Post_ID = ID (Metadata doc), FilePath = path,
          Post_Path = Path (Metadata doc), Hash = Document_Hash (hashing X) doc,
          CreatedAt = lastNow w', UpdatedAt = lastNow w', Main = Some doc,
          Translated = Some Map.empty\<rparr>)) \<and>
   (processMarkdownFile X gc path w = (r, gc', w') \<and> storeMap gc k = Some (Some p) \<longrightarrow>
      (\<exists>p'. storeMap gc' k = Some (Some p') \<and> CreatedAt p' = CreatedAt p))"
proof (intro conjI impI)
  assume a: "processMarkdownFile X gc path w = (Inr doc, gc', w') \<and>
    storeMap gc (ID (Metadata doc)) = None"
  then have m: "mergePost (hashing X) gc path doc (lastNow w') = Inr gc'"
    using processMarkdownFile_merge by blast
  show "storeMap gc' (ID (Metadata doc)) =
        Some (Some \<lparr>Post_ID = ID (Metadata doc), FilePath = path,
          Post_Path = Path (Metadata doc), Hash = Document_Hash (hashing X) doc,
          CreatedAt = lastNow w', UpdatedAt = lastNow w', Main = Some doc,
          Translated = Some Map.empty\<rparr>)"
    using a by (simp add: mergePost_storeMap [OF m] updatePost_def newPost_def Let_def)
next
  assume "processMarkdownFile X gc path w = (r, gc', w') \<and> storeMap gc k = Some (Some p)"
  then show "\<exists>p'. storeMap gc' k = Some (Some p') \<and> CreatedAt p' = CreatedAt p"
    using processMarkdownFile_keeps_posts [of X gc path w r gc' w' k p] by blast
qed

theorem C3_witness:
  "storeMap (fst (snd (processMarkdownFile exX exStore ''root/a.md'' (exWorld exSrc))))
     (ID (Metadata exDoc2)) =
     Some (Some \<lparr>Post_ID = ID (Metadata exDoc2), FilePath = ''root/a.md'',
       Post_Path = Path (Metadata exDoc2), Hash = Document_Hash (hashing exX) exDoc2,
       CreatedAt = exTime 8, UpdatedAt = exTime 8, Main = Some exDoc2,
       Translated = Some Map.empty\<rparr>) \<and>
   (\<exists>p'. storeMap (fst (snd (processMarkdownFile exX exStore1 ''root/a.md'' (exWorld exSrc1))))
           ''p1'' = Some (Some p') \<and> CreatedAt p' = CreatedAt exPost1)"
proof -
  have a: "fst (processMarkdownFile exX exStore ''root/a.md'' (exWorld exSrc)) = Inr exDoc2"
    by code_simp
  have b: "processMarkdownFile exX exStore ''root/a.md'' (exWorld exSrc) =
      (Inr exDoc2,
       fst (snd (processMarkdownFile exX exStore ''root/a.md'' (exWorld exSrc))),
       snd (snd (processMarkdownFile exX exStore ''root/a.md'' (exWorld exSrc))))"
    using a by (metis prod.collapse)
  have c: "storeMap exStore (ID (Metadata exDoc2)) = None"
    by (simp add: storeMap_def exStore_def)
  have d: "lastNow (snd (snd (processMarkdownFile exX exStore ''root/a.md'' (exWorld exSrc)))) =
      exTime 8"
    by code_simp
  have e: "processMarkdownFile exX exStore1 ''root/a.md'' (exWorld exSrc1) =
      (fst (processMarkdownFile exX exStore1 ''root/a.md'' (exWorld exSrc1)),
       fst (snd (processMarkdownFile exX exStore1 ''root/a.md'' (exWorld exSrc1))),
       snd (snd (processMarkdownFile exX exStore1 ''root/a.md'' (exWorld exSrc1))))"
    by simp
  have f: "storeMap exStore1 ''p1'' = Some (Some exPost1)"
    by (simp add: storeMap_def exStore1_def)
  show ?thesis
    using C3_new_post_created [of exX exStore "''root/a.md''" "exWorld exSrc" exDoc2
        "fst (snd (processMarkdownFile exX exStore ''root/a.md'' (exWorld exSrc)))"
        "snd (snd (processMarkdownFile exX exStore ''root/a.md'' (exWorld exSrc)))"] b c d
      C3_new_post_created [of exX exStore1 "''root/a.md''" "exWorld exSrc1" exDoc2
        "fst (snd (processMarkdownFile exX exStore1 ''root/a.md'' (exWorld exSrc1)))"
        "snd (snd (processMarkdownFile exX exStore1 ''root/a.md'' (exWorld exSrc1)))"
        "fst (processMarkdownFile exX exStore1 ''root/a.md'' (exWorld exSrc1))" "''p1''" exPost1]
      e f
    by simp
qed

section \<open>The claims about the normalizer\<close>

lemma normalizeMetadata_total:
  assumes "ID (Metadata doc) \<noteq> [] \<or> 16 \<le> length (entropy w)"
  shows "\<exists>u doc' w'. normalizeMetadata X doc w = (Inr (u, doc'), w')"
proof (cases "normalizeMetadata X doc w")
  case (Pair r w')
  show ?thesis
  proof (cases r)
    case (Inl e)
    with Pair assms show ?thesis by (auto simp: normalizeMetadata_Inl)
  next
    case (Inr st)
    with Pair show ?thesis by (cases st) auto
  qed
qed

lemma normalizeMetadata_Type:
  assumes "normalizeMetadata X doc w = (Inr (u, doc'), w')"
  shows "Type doc' = Type doc"
proof -
  have "doc'\<lparr>Metadata := (Metadata doc')\<lparr>ID := ID (Metadata doc), Date := Date (Metadata doc),
            Path := Path (Metadata doc)\<rparr>\<rparr> = doc"
    using assms by (rule normalizeMetadata_fills)
  then have "Type (doc'\<lparr>Metadata := (Metadata doc')\<lparr>ID := ID (Metadata doc),
      Date := Date (Metadata doc), Path := Path (Metadata doc)\<rparr>\<rparr>) = Type doc"
    by (rule arg_cong)
  then show ?thesis by simp
qed

lemma normalizeMetadata_present:
  assumes "\<not> missing doc"
  shows "normalizeMetadata X doc w = (Inr (False, doc), w)"
  using assms
  by (simp add: normalizeMetadata_def missing_def fillID_def fillDate_def fillPath_def)

lemma processMarkdownFile_files:
  assumes "processMarkdownFile X gc path w = (r, gc', w')" and "files w' \<noteq> files w"
  shows "\<exists>data doc0. os_ReadFile X path w = Inr data \<and> ParseMarkdown X data = Inr doc0 \<and>
           missing doc0 \<and> Type doc0 = DocumentTypeMarkdown"
proof (cases "os_ReadFile X path w")
  case (Inl e)
  with assms show ?thesis by (simp add: processMarkdownFile_def)
next
  case (Inr data)
  note rd = this
  show ?thesis
  proof (cases "ParseMarkdown X data")
    case (Inl e)
    with assms rd show ?thesis by (simp add: processMarkdownFile_def)
  next
    case (Inr doc0)
    note ps = this
    obtain r1 w1 where n: "normalizeMetadata X doc0 w = (r1, w1)" by (metis surj_pair)
    show ?thesis
    proof (cases r1)
      case (Inl e)
      with n have "files w1 = files w" by (simp add: normalizeMetadata_Inl)
      with assms rd ps n Inl show ?thesis by (simp add: processMarkdownFile_def)
    next
      case (Inr st)
      obtain u doc1 where st: "st = (u, doc1)" by (cases st)
      from n Inr st have n': "normalizeMetadata X doc0 w = (Inr (u, doc1), w1)" by simp
      have f1: "files w1 = files w" using n' by (rule normalizeMetadata_fills)
      have u: "u = missing doc0" using n' by (rule normalizeMetadata_fills)
      have ty: "Type doc1 = Type doc0" using n' by (rule normalizeMetadata_Type)
      obtain r2 w2 where wb: "writeBack X path u doc1 w1 = (r2, w2)" by (metis surj_pair)
      show ?thesis
      proof (cases r2)
        case (Inl e)
        with wb have "w2 = w1" using writeBack_Inl by blast
        with assms rd ps n' wb Inl f1 show ?thesis by (simp add: processMarkdownFile_def)
      next
        case (Inr doc)
        with wb have wb': "writeBack X path u doc1 w1 = (Inr doc, w2)" by simp
        have "files w' = files w2"
          using assms(1) rd ps n' wb'
          by (auto simp: processMarkdownFile_def time_Now_def split: sum.splits)
        with assms(2) f1 have "files w2 \<noteq> files w1" by simp
        with writeBack_Inr(7) [OF wb'] have "u \<and> Type doc1 = DocumentTypeMarkdown" by simp
        with u ty rd ps show ?thesis by simp
      qed
    qed
  qed
qed

text \<open>
  Claim C4. The normalizer fills the missing fields and no other. When it returns, the flag
  says whether the identifier was empty, the date zero or the path empty; an empty identifier
  has become the hexadecimal text of the next 16 bytes of the entropy source, a zero date
  the reading of the clock in UTC, an empty path what \<open>generatePath\<close> makes of the title
  with the next bytes of the source; a field that was present, and every other field of the
  document, is as before; the clock was read once for a zero date and not otherwise, and 16
  bytes were drawn for an empty identifier and 4 for an empty path and none otherwise. It
  returns whenever the identifier is present or 16 bytes can be drawn. And a run of
  \<open>processMarkdownFile\<close> that changes the file system was on a markdown document with a
  missing field.
\<close>

theorem C4_normalizer_fills_missing_fields:
  "(normalizeMetadata X doc w = (Inr (u, doc'), w') \<longrightarrow>
      u = missing doc \<and>
      ID (Metadata doc') =
        (if ID (Metadata doc) = [] then EncodeToString (take 16 (entropy w))
         else ID (Metadata doc)) \<and>
      Date (Metadata doc') =
        (if IsZero (Date (Metadata doc)) then time_UTC (clock w (ticks w))
         else Date (Metadata doc)) \<and>
      Path (Metadata doc') =
        (if Path (Metadata doc) = []
         then fst (generatePath (unicode_ToLower X) (Title (Metadata doc))
                (w\<lparr>entropy := (if ID (Metadata doc) = [] then drop 16 (entropy w) else entropy w)\<rparr>))
         else Path (Metadata doc)) \<and>
      doc'\<lparr>Metadata := (Metadata doc')\<lparr>ID := ID (Metadata doc), Date := Date (Metadata doc),
          Path := Path (Metadata doc)\<rparr>\<rparr> = doc \<and>
      ticks w' = ticks w + (if IsZero (Date (Metadata doc)) then 1 else 0) \<and>
      entropy w' =
        drop ((if ID (Metadata doc) = [] then 16 else 0) + (if Path (Metadata doc) = [] then 4 else 0))
          (entropy w) \<and>
      files w' = files w) \<and>
   (ID (Metadata doc) \<noteq> [] \<or> 16 \<le> length (entropy w) \<longrightarrow>
      (\<exists>u doc' w'. normalizeMetadata X doc w = (Inr (u, doc'), w'))) \<and>
   (processMarkdownFile X gc path v = (r, gc', v') \<and> files v' \<noteq> files v \<longrightarrow>
      (\<exists>data doc0. os_ReadFile X path v = Inr data \<and> ParseMarkdown X data = Inr doc0 \<and>
         missing doc0 \<and> Type doc0 = DocumentTypeMarkdown))"
proof (intro conjI impI)
  assume a: "normalizeMetadata X doc w = (Inr (u, doc'), w')"
  show "u = missing doc" using a by (rule normalizeMetadata_fills)
  show "ID (Metadata doc') =
        (if ID (Metadata doc) = [] then EncodeToString (take 16 (entropy w))
         else ID (Metadata doc))" using a by (rule normalizeMetadata_fills)
  show "Date (Metadata doc') =
        (if IsZero (Date (Metadata doc)) then time_UTC (clock w (ticks w))
         else Date (Metadata doc))" using a by (rule normalizeMetadata_fills)
  show "Path (Metadata doc') =
        (if Path (Metadata doc) = []
         then fst (generatePath (unicode_ToLower X) (Title (Metadata doc))
                (w\<lparr>entropy := (if ID (Metadata doc) = [] then drop 16 (entropy w) else entropy w)\<rparr>))
         else Path (Metadata doc))" using a by (rule normalizeMetadata_fills)
  show "doc'\<lparr>Metadata := (Metadata doc')\<lparr>ID := ID (Metadata doc), Date := Date (Metadata doc),
          Path := Path (Metadata doc)\<rparr>\<rparr> = doc" using a by (rule normalizeMetadata_fills)
  show "ticks w' = ticks w + (if IsZero (Date (Metadata doc)) then 1 else 0)"
    using a by (rule normalizeMetadata_fills)
  show "entropy w' =
        drop ((if ID (Metadata doc) = [] then 16 else 0) + (if Path (Metadata doc) = [] then 4 else 0))
          (entropy w)" using a by (rule normalizeMetadata_fills)
  show "files w' = files w" using a by (rule normalizeMetadata_fills)
next
  assume "ID (Metadata doc) \<noteq> [] \<or> 16 \<le> length (entropy w)"
  then show "\<exists>u doc' w'. normalizeMetadata X doc w = (Inr (u, doc'), w')"
    by (rule normalizeMetadata_total)
next
  assume "processMarkdownFile X gc path v = (r, gc', v') \<and> files v' \<noteq> files v"
  then show "\<exists>data doc0. os_ReadFile X path v = Inr data \<and> ParseMarkdown X data = Inr doc0 \<and>
         missing doc0 \<and> Type doc0 = DocumentTypeMarkdown"
    using processMarkdownFile_files by blast
qed

theorem C4_witness:
  "True = missing (exDoc ''x'') \<and>
   ID (Metadata ((exDoc ''x'')\<lparr>Metadata := Metadata exDoc2\<rparr>)) =
     EncodeToString (take 16 (entropy (exWorld ''x''))) \<and>
   Date (Metadata ((exDoc ''x'')\<lparr>Metadata := Metadata exDoc2\<rparr>)) =
     time_UTC (clock (exWorld ''x'') (ticks (exWorld ''x''))) \<and>
   Path (Metadata ((exDoc ''x'')\<lparr>Metadata := Metadata exDoc2\<rparr>)) =
     fst (generatePath (unicode_ToLower exX) ''Hello World''
       ((exWorld ''x'')\<lparr>entropy := drop 16 (entropy (exWorld ''x''))\<rparr>)) \<and>
   ticks (snd (normalizeMetadata exX (exDoc ''x'') (exWorld ''x''))) = 8 \<and>
   entropy (snd (normalizeMetadata exX (exDoc ''x'') (exWorld ''x''))) = map of_nat [21..<32] \<and>
   (\<exists>u doc' w'. normalizeMetadata exX exDoc1 (exWorld ''x'') = (Inr (u, doc'), w')) \<and>
   (\<exists>data doc0. os_ReadFile exX ''root/a.md'' (exWorld exSrc) = Inr data \<and>
      ParseMarkdown exX data = Inr doc0 \<and> missing doc0 \<and> Type doc0 = DocumentTypeMarkdown)"
proof -
  have a: "fst (normalizeMetadata exX (exDoc ''x'') (exWorld ''x'')) =
      Inr (True, (exDoc ''x'')\<lparr>Metadata := Metadata exDoc2\<rparr>)"
    by code_simp
  have b: "normalizeMetadata exX (exDoc ''x'') (exWorld ''x'') =
      (Inr (True, (exDoc ''x'')\<lparr>Metadata := Metadata exDoc2\<rparr>),
       snd (normalizeMetadata exX (exDoc ''x'') (exWorld ''x'')))"
    using a by (metis prod.collapse)
  have c: "ID (Metadata (exDoc ''x'')) = []" "IsZero (Date (Metadata (exDoc ''x'')))"
    "Path (Metadata (exDoc ''x'')) = []" "Title (Metadata (exDoc ''x'')) = ''Hello World''"
    "ticks (exWorld ''x'') = 7" "entropy (exWorld ''x'') = map of_nat [1..<32]"
    "ID (Metadata exDoc1) \<noteq> []"
    by (simp_all add: exDoc_def exDoc1_def IsZero_def exTime_def exWorld_def)
  have d: "drop 20 (map of_nat [1..<32] :: byte list) = map of_nat [21..<32]"
    by code_simp
  have e: "processMarkdownFile exX exStore ''root/a.md'' (exWorld exSrc) =
      (fst (processMarkdownFile exX exStore ''root/a.md'' (exWorld exSrc)),
       fst (snd (processMarkdownFile exX exStore ''root/a.md'' (exWorld exSrc))),
       snd (snd (processMarkdownFile exX exStore ''root/a.md'' (exWorld exSrc))))"
    by simp
  have f: "map_option content
      (files (snd (snd (processMarkdownFile exX exStore ''root/a.md'' (exWorld exSrc)))) ''root/a.md'') \<noteq>
      map_option content (files (exWorld exSrc) ''root/a.md'')"
    by code_simp
  then have g: "files (snd (snd (processMarkdownFile exX exStore ''root/a.md'' (exWorld exSrc)))) \<noteq>
      files (exWorld exSrc)"
    by metis
  show ?thesis
    using C4_normalizer_fills_missing_fields [of exX "exDoc ''x''" "exWorld ''x''" True
        "(exDoc ''x'')\<lparr>Metadata := Metadata exDoc2\<rparr>"
        "snd (normalizeMetadata exX (exDoc ''x'') (exWorld ''x''))"
        exStore "''root/a.md''" "exWorld exSrc"
        "fst (processMarkdownFile exX exStore ''root/a.md'' (exWorld exSrc))"
        "fst (snd (processMarkdownFile exX exStore ''root/a.md'' (exWorld exSrc)))"
        "snd (snd (processMarkdownFile exX exStore ''root/a.md'' (exWorld exSrc)))"]
      C4_normalizer_fills_missing_fields [of exX exDoc1 "exWorld ''x''"]
      b c d e g
    by simp
qed

section \<open>Idempotence of the normalization\<close>

lemma length_EncodeToString: "length (EncodeToString bs) = 2 * length bs"
  by (induction bs) (simp_all add: EncodeToString_def hexByte_def)

lemma processMarkdownFile_present:
  assumes "os_ReadFile X path w = Inr data" and "ParseMarkdown X data = Inr doc0"
    and "\<not> missing doc0"
  shows "processMarkdownFile X gc path w =
     (case mergePost (hashing X) gc path doc0 (clock w (ticks w)) of
        Inl p \<Rightarrow> (Inl (Panic p), gc, w\<lparr>ticks := Suc (ticks w)\<rparr>)
      | Inr gc' \<Rightarrow> (Inr doc0, gc', w\<lparr>ticks := Suc (ticks w)\<rparr>))"
  using assms
  by (simp add: processMarkdownFile_def normalizeMetadata_present writeBack_skip time_Now_def)

lemma processMarkdownFile_ID:
  assumes "processMarkdownFile X gc path w = (Inr doc, gc', w')"
  shows "ID (Metadata doc) \<noteq> []"
    and "os_ReadFile X path w = Inr data \<and> ParseMarkdown X data = Inr doc0 \<and>
         ID (Metadata doc0) \<noteq> [] \<longrightarrow> ID (Metadata doc) = ID (Metadata doc0)"
proof -
  from assms obtain data' doc0' u doc1 w1 w2 where
    h: "os_ReadFile X path w = Inr data'" "ParseMarkdown X data' = Inr doc0'"
      "normalizeMetadata X doc0' w = (Inr (u, doc1), w1)"
      "writeBack X path u doc1 w1 = (Inr doc, w2)"
    by (rule processMarkdownFile_Inr)
  have m: "Metadata doc = Metadata doc1" using h(4) by (rule writeBack_Inr)
  have i: "ID (Metadata doc1) =
          (if ID (Metadata doc0') = [] then EncodeToString (take 16 (entropy w))
           else ID (Metadata doc0'))"
    using h(3) by (rule normalizeMetadata_fills)
  have e: "ID (Metadata doc0') = [] \<longrightarrow> 16 \<le> length (entropy w)"
    using h(3) by (rule normalizeMetadata_fills)
  have "ID (Metadata doc0') = [] \<longrightarrow> length (EncodeToString (take 16 (entropy w))) = 32"
    using e by (simp add: length_EncodeToString)
  then have "ID (Metadata doc0') = [] \<longrightarrow> EncodeToString (take 16 (entropy w)) \<noteq> []"
    by auto
  with i m show "ID (Metadata doc) \<noteq> []" by auto
  show "os_ReadFile X path w = Inr data \<and> ParseMarkdown X data = Inr doc0 \<and>
         ID (Metadata doc0) \<noteq> [] \<longrightarrow> ID (Metadata doc) = ID (Metadata doc0)"
    using h(1,2) i m by auto
qed

lemma os_ReadFile_same_file:
  "files v path = files w path \<Longrightarrow> os_ReadFile X path v = os_ReadFile X path w"
  by (simp add: os_ReadFile_def)

lemma rewriteFrontMatter_Inr:
  assumes "rewriteFrontMatter md newMeta = Inr nd"
  shows "\<exists>body. nd = delimiter @ newMeta @ delimiter @ body"
  using assms by (auto simp: rewriteFrontMatter_def Let_def split: prod.splits if_splits)

lemma writeBack_written:
  assumes "writeBack X path True d w = (Inr d', w')" and "Type d = DocumentTypeMarkdown"
  shows "\<exists>y body f. yaml_Marshal X (Metadata d) = Inr y \<and> files w' path = Some f \<and>
           content f = delimiter @ y @ delimiter @ body"
proof -
  from assms obtain y nd where y: "yaml_Marshal X (Metadata d) = Inr y"
    and nd: "rewriteFrontMatter (Markdown d) y = Inr nd"
    by (auto simp: writeBack_def split: sum.splits)
  from assms y nd obtain fStat where st: "os_Stat X path w = Inr fStat"
    by (auto simp: writeBack_def split: sum.splits)
  from assms y nd st have w': "os_WriteFile X path nd (perm fStat) w = (None, w')"
    by (auto simp: writeBack_def split: prod.splits option.splits)
  then have "\<exists>f. files w' path = Some f \<and> content f = nd"
    by (auto simp: os_WriteFile_def split: if_splits option.splits)
  with y rewriteFrontMatter_Inr [OF nd] show ?thesis by blast
qed

lemma processMarkdownFile_rerun:
  assumes first: "processMarkdownFile X gc path w = (Inr doc, gc', w')"
    and md: "Type doc = DocumentTypeMarkdown"
    and rt: "\<forall>y body d. yaml_Marshal X (Metadata doc) = Inr y \<and>
        ParseMarkdown X (delimiter @ y @ delimiter @ body) = Inr d \<longrightarrow>
        ID (Metadata d) = ID (Metadata doc)"
    and same: "files v path = files w' path"
    and second: "processMarkdownFile X gc2 path v = (Inr doc2, gc3, v')"
  shows "ID (Metadata doc2) = ID (Metadata doc)"
proof -
  from first obtain data doc0 u doc1 w1 w2 where
    h: "os_ReadFile X path w = Inr data" "ParseMarkdown X data = Inr doc0"
      "normalizeMetadata X doc0 w = (Inr (u, doc1), w1)"
      "writeBack X path u doc1 w1 = (Inr doc, w2)"
      "w' = w2\<lparr>ticks := Suc (ticks w2)\<rparr>"
    by (rule processMarkdownFile_Inr)
  from second obtain data2 d2 where
    s: "os_ReadFile X path v = Inr data2" "ParseMarkdown X data2 = Inr d2"
    by (rule processMarkdownFile_Inr)
  have ne: "ID (Metadata doc) \<noteq> []" using first by (rule processMarkdownFile_ID)
  have m: "Metadata doc = Metadata doc1" using h(4) by (rule writeBack_Inr)
  have t: "Type doc = Type doc1" using h(4) by (rule writeBack_Inr)
  have f1: "files w1 = files w" using h(3) by (rule normalizeMetadata_fills)
  have u: "u = missing doc0" using h(3) by (rule normalizeMetadata_fills)
  have fv: "files v path = files w2 path" using same h(5) by simp
  have "ID (Metadata d2) = ID (Metadata doc)"
  proof (cases u)
    case True
    with h(4) md t obtain y body f where
      y: "yaml_Marshal X (Metadata doc1) = Inr y" and f: "files w2 path = Some f"
      and c: "content f = delimiter @ y @ delimiter @ body"
      using writeBack_written [of X path doc1 w1 doc w2] by auto
    from s(1) fv f c have "data2 = delimiter @ y @ delimiter @ body"
      by (auto simp: os_ReadFile_def split: if_splits)
    with s(2) y m rt show ?thesis by auto
  next
    case False
    with u have nm: "\<not> missing doc0" by simp
    then have "normalizeMetadata X doc0 w = (Inr (False, doc0), w)"
      by (rule normalizeMetadata_present)
    with h(3) have d1: "doc1 = doc0" and w1: "w1 = w" by simp_all
    from h(4) False have "doc = doc1" and "w2 = w1"
      by (simp_all add: writeBack_skip)
    with d1 w1 fv have "doc = doc0" and "files v path = files w path" by simp_all
    then have "os_ReadFile X path v = os_ReadFile X path w"
      using os_ReadFile_same_file by blast
    with s(1) h(1) have "data2 = data" by simp
    with s(2) h(2) have "d2 = doc0" by simp
    with \<open>doc = doc0\<close> show ?thesis by simp
  qed
  with ne s second show ?thesis
    using processMarkdownFile_ID(2) [OF second, of data2 d2] by simp
qed

lemma sublist_single: "sublist [x] ys \<longleftrightarrow> x \<in> set ys"
  by (induction ys) (auto simp: sublist_Cons_right)

lemma exField_read:
  assumes "\<not> sublist (k @ '': '') (pre @ butlast (k @ '': ''))"
    and "CHR ''\<newline>'' \<notin> set val"
  shows "exField k (pre @ (k @ '': '') @ val @ ''\<newline>'' @ rest) = val"
proof -
  have a: "Cut (pre @ (k @ '': '') @ val @ ''\<newline>'' @ rest) (k @ '': '') =
      (pre, val @ ''\<newline>'' @ rest, True)"
    using assms(1) by (rule Cut_first)
  have "\<not> sublist ''\<newline>'' (val @ butlast ''\<newline>'')"
    using assms(2) by (simp add: sublist_single)
  then have b: "Cut (val @ ''\<newline>'' @ rest) ''\<newline>'' = (val, rest, True)"
    by (rule Cut_first)
  show ?thesis unfolding exField_def by (simp only: a b prod.case if_True fst_conv)
qed

lemma ex_roundtrip:
  assumes "CHR ''\<newline>'' \<notin> set (ID m)" and "yaml_Marshal exX m = Inr y"
    and "ParseMarkdown exX (delimiter @ y @ delimiter @ body) = Inr d"
  shows "ID (Metadata d) = ID m"
proof -
  have y: "y = (''id'' @ '': '') @ ID m @ ''\<newline>'' @ (''title: '' @ Title m @ ''\<newline>date: '' @
      replicate (nat (wall_sec (Date m))) CHR ''d'' @ ''\<newline>path: '' @ Path m @ ''\<newline>'')"
    using assms(2) by (auto simp: exX_def exYaml_def)
  have n: "\<not> sublist (''id'' @ '': '') (delimiter @ butlast (''id'' @ '': ''))"
    by code_simp
  have "exField ''id'' (delimiter @ (''id'' @ '': '') @ ID m @ ''\<newline>'' @
      ((''title: '' @ Title m @ ''\<newline>date: '' @
        replicate (nat (wall_sec (Date m))) CHR ''d'' @ ''\<newline>path: '' @ Path m @ ''\<newline>'') @
       delimiter @ body)) = ID m"
    using n assms(1) by (rule exField_read)
  then have "exField ''id'' (delimiter @ y @ delimiter @ body) = ID m"
    by (simp add: y)
  moreover have "delimiter @ y @ delimiter @ body \<noteq> []" by (simp add: delimiter_def)
  ultimately show ?thesis
    using assms(3) by (auto simp: exX_def exParse_def split: if_splits)
qed

text \<open>
  Claim C5. When the parsed document has its identifier, its date and its path, a run of
  \<open>processMarkdownFile\<close> returns that document as it was parsed (or stops at a \<^verbatim>\<open>nil\<close>
  pointer of the store), draws no entropy and leaves every file as it was: there is no
  write-back. A document that a run returns has a non-empty identifier, and an identifier
  that the parser found is the identifier of the document returned. And the identifier
  stays: when a run has returned a markdown document, a later run on the file as that run
  left it (in whatever store, and whatever else the world then holds) returns a document
  with the same identifier. The one assumption is on the two collaborators: from a
  front-matter block that the encoder made of the metadata of the first document, followed
  by any body, the parser reads that identifier.
\<close>

theorem C5_normalization_idempotent:
  "(os_ReadFile X path w = Inr data \<and> ParseMarkdown X data = Inr doc0 \<and> \<not> missing doc0 \<and>
    processMarkdownFile X gc path w = (r, gc', w') \<longrightarrow>
      files w' = files w \<and> entropy w' = entropy w \<and>
      (r = Inr doc0 \<or> (\<exists>p. r = Inl (Panic p)))) \<and>
   (processMarkdownFile X gc path w = (Inr doc, gc', w') \<longrightarrow> ID (Metadata doc) \<noteq> []) \<and>
   (os_ReadFile X path w = Inr data \<and> ParseMarkdown X data = Inr doc0 \<and>
    ID (Metadata doc0) \<noteq> [] \<and> processMarkdownFile X gc path w = (Inr doc, gc', w') \<longrightarrow>
      ID (Metadata doc) = ID (Metadata doc0)) \<and>
   (processMarkdownFile X gc path w = (Inr doc, gc', w') \<and>
    Type doc = DocumentTypeMarkdown \<and>
    (\<forall>y body d. yaml_Marshal X (Metadata doc) = Inr y \<and>
       ParseMarkdown X (delimiter @ y @ delimiter @ body) = Inr d \<longrightarrow>
       ID (Metadata d) = ID (Metadata doc)) \<and>
    files v path = files w' path \<and>
    processMarkdownFile X gc2 path v = (Inr doc2, gc3, v') \<longrightarrow>
      ID (Metadata doc2) = ID (Metadata doc))"
proof (intro conjI impI)
  assume a: "os_ReadFile X path w = Inr data \<and> ParseMarkdown X data = Inr doc0 \<and>
    \<not> missing doc0 \<and> processMarkdownFile X gc path w = (r, gc', w')"
  then have "(r, gc', w') =
     (case mergePost (hashing X) gc path doc0 (clock w (ticks w)) of
        Inl p \<Rightarrow> (Inl (Panic p), gc, w\<lparr>ticks := Suc (ticks w)\<rparr>)
      | Inr gc' \<Rightarrow> (Inr doc0, gc', w\<lparr>ticks := Suc (ticks w)\<rparr>))"
    using processMarkdownFile_present [of X path w data doc0 gc] by simp
  then show "files w' = files w" and "entropy w' = entropy w"
    and "r = Inr doc0 \<or> (\<exists>p. r = Inl (Panic p))"
    by (auto split: sum.splits)
next
  assume "processMarkdownFile X gc path w = (Inr doc, gc', w')"
  then show "ID (Metadata doc) \<noteq> []" by (rule processMarkdownFile_ID)
next
  assume "os_ReadFile X path w = Inr data \<and> ParseMarkdown X data = Inr doc0 \<and>
    ID (Metadata doc0) \<noteq> [] \<and> processMarkdownFile X gc path w = (Inr doc, gc', w')"
  then show "ID (Metadata doc) = ID (Metadata doc0)"
    using processMarkdownFile_ID(2) by blast
next
  assume a: "processMarkdownFile X gc path w = (Inr doc, gc', w') \<and>
    Type doc = DocumentTypeMarkdown \<and>
    (\<forall>y body d. yaml_Marshal X (Metadata doc) = Inr y \<and>
       ParseMarkdown X (delimiter @ y @ delimiter @ body) = Inr d \<longrightarrow>
       ID (Metadata d) = ID (Metadata doc)) \<and>
    files v path = files w' path \<and>
    processMarkdownFile X gc2 path v = (Inr doc2, gc3, v')"
  from a have a1: "processMarkdownFile X gc path w = (Inr doc, gc', w')"
    and a2: "Type doc = DocumentTypeMarkdown"
    and a3: "\<forall>y body d. yaml_Marshal X (Metadata doc) = Inr y \<and>
       ParseMarkdown X (delimiter @ y @ delimiter @ body) = Inr d \<longrightarrow>
       ID (Metadata d) = ID (Metadata doc)"
    and a4: "files v path = files w' path"
    and a5: "processMarkdownFile X gc2 path v = (Inr doc2, gc3, v')"
    by blast+
  from a1 a2 a3 a4 a5 show "ID (Metadata doc2) = ID (Metadata doc)"
    by (rule processMarkdownFile_rerun)
qed

theorem C5_witness:
  "fst exRun1 = Inr exDoc2 \<and>
   map_option content (files (snd (snd exRun1)) ''root/a.md'') = Some exSrc2 \<and>
   fst exRun2 = Inr exDoc3 \<and>
   files (snd (snd exRun2)) = files (snd (snd exRun1)) \<and>
   entropy (snd (snd exRun2)) = entropy (snd (snd exRun1)) \<and>
   ID (Metadata exDoc2) \<noteq> [] \<and>
   ID (Metadata exDoc3) = ID (Metadata exDoc2)"
proof -
  have r1: "fst exRun1 = Inr exDoc2" by code_simp
  have r2: "fst exRun2 = Inr exDoc3" by code_simp
  have f1: "map_option content (files (snd (snd exRun1)) ''root/a.md'') = Some exSrc2"
    by code_simp
  have h1: "os_ReadFile exX ''root/a.md'' (snd (snd exRun1)) = Inr exSrc2" by code_simp
  have h2: "ParseMarkdown exX exSrc2 = Inr exDoc3" by code_simp
  have h3: "\<not> missing exDoc3" by code_simp
  have md: "Type exDoc2 = DocumentTypeMarkdown" by (simp add: exDoc2_def)
  have nl: "CHR ''\<newline>'' \<notin> set (ID (Metadata exDoc2))" by code_simp
  have rt: "\<forall>y body d. yaml_Marshal exX (Metadata exDoc2) = Inr y \<and>
       ParseMarkdown exX (delimiter @ y @ delimiter @ body) = Inr d \<longrightarrow>
       ID (Metadata d) = ID (Metadata exDoc2)"
    using ex_roundtrip [OF nl] by blast
  have e1: "processMarkdownFile exX exStore ''root/a.md'' (exWorld exSrc) =
      (Inr exDoc2, fst (snd exRun1), snd (snd exRun1))"
    using r1 unfolding exRun1_def by (metis prod.collapse)
  have e2: "processMarkdownFile exX (fst (snd exRun1)) ''root/a.md'' (snd (snd exRun1)) =
      (Inr exDoc3, fst (snd exRun2), snd (snd exRun2))"
    using r2 unfolding exRun2_def by (metis prod.collapse)
  have sf: "files (snd (snd exRun1)) ''root/a.md'' = files (snd (snd exRun1)) ''root/a.md''"
    by (rule refl)
  note t1 = C5_normalization_idempotent [where X = exX and path = "''root/a.md''"
      and w = "snd (snd exRun1)" and data = exSrc2 and ?doc0.0 = exDoc3
      and gc = "fst (snd exRun1)" and r = "Inr exDoc3" and gc' = "fst (snd exRun2)"
      and w' = "snd (snd exRun2)"]
  note t2 = C5_normalization_idempotent [where X = exX and path = "''root/a.md''"
      and w = "exWorld exSrc" and gc = exStore and doc = exDoc2
      and gc' = "fst (snd exRun1)" and w' = "snd (snd exRun1)" and v = "snd (snd exRun1)"
      and ?gc2.0 = "fst (snd exRun1)" and ?doc2.0 = exDoc3 and ?gc3.0 = "fst (snd exRun2)"
      and v' = "snd (snd exRun2)"]
  have a: "files (snd (snd exRun2)) = files (snd (snd exRun1)) \<and>
      entropy (snd (snd exRun2)) = entropy (snd (snd exRun1))"
    using t1 h1 h2 h3 e2 by blast
  have b: "ID (Metadata exDoc2) \<noteq> []"
    using t2 e1 by blast
  have c: "ID (Metadata exDoc3) = ID (Metadata exDoc2)"
    using t2 e1 md rt sf e2 by blast
  from a b c r1 r2 f1 show ?thesis by blast
qed

section \<open>The content hasher\<close>


lemma distinct_hextable: "distinct hextable"
  by (simp add: hextable_def)

lemma low_nibble_mask: "(v::byte) AND 0x0f = take_bit 4 v"
proof -
  have "(0x0f::byte) = mask 4" by (simp add: mask_eq_exp_minus_1)
  then show ?thesis by (simp add: take_bit_eq_mask)
qed

lemma byte_from_nibbles:
  fixes v v' :: byte
  assumes "drop_bit 4 v = drop_bit 4 v'" and "v AND 0x0f = v' AND 0x0f"
  shows "v = v'"
proof -
  have "take_bit 4 v = take_bit 4 v'" using assms(2) by (simp add: low_nibble_mask)
  then have "push_bit 4 (drop_bit 4 v) + take_bit 4 v = push_bit 4 (drop_bit 4 v') + take_bit 4 v'"
    using assms(1) by simp
  then show ?thesis by (simp only: bits_ident)
qed

lemma high_nibble_lt: "unat (drop_bit 4 (v::byte)) < 16"
proof -
  have "unat v < 256" using unsigned_less [of v, where ?'a = nat] by simp
  moreover have "unat (drop_bit 4 v) = unat v div 16"
    by (simp only: unat_drop_bit_eq) (simp add: drop_bit_eq_div)
  ultimately show ?thesis by simp
qed

lemma low_nibble_lt: "unat ((v::byte) AND 0x0f) < 16"
proof -
  have "unat (v AND 0x0f) \<le> unat (0x0f :: byte)"
    by (rule word_and_le1 [THEN word_le_nat_alt [THEN iffD1]])
  then show ?thesis by simp
qed

lemma hexByte_inj: "hexByte v = hexByte v' \<Longrightarrow> v = v'"
proof -
  assume "hexByte v = hexByte v'"
  then have h: "hextable ! unat (drop_bit 4 v) = hextable ! unat (drop_bit 4 v')"
    and l: "hextable ! unat (v AND 0x0f) = hextable ! unat (v' AND 0x0f)"
    by (simp_all add: hexByte_def)
  have len: "length hextable = 16" by (simp add: hextable_def)
  have "unat (drop_bit 4 v) = unat (drop_bit 4 v')"
    using h high_nibble_lt [of v] high_nibble_lt [of v'] distinct_hextable len
    by (simp add: nth_eq_iff_index_eq)
  moreover have "unat (v AND 0x0f) = unat (v' AND 0x0f)"
    using l low_nibble_lt [of v] low_nibble_lt [of v'] distinct_hextable len
    by (simp add: nth_eq_iff_index_eq)
  ultimately show "v = v'"
    using byte_from_nibbles [of v v'] by (simp add: word_unat_eq_iff)
qed


lemma EncodeToString_inj: "EncodeToString xs = EncodeToString ys \<Longrightarrow> xs = ys"
proof (induction xs arbitrary: ys)
  case Nil
  then have "length (EncodeToString ys) = 0" by (simp add: EncodeToString_def)
  then show ?case by (simp add: length_EncodeToString)
next
  case (Cons x xs)
  have "length (EncodeToString ys) = length (EncodeToString (x # xs))"
    using Cons.prems by simp
  then have "length ys = length (x # xs)"
    by (simp add: length_EncodeToString)
  then obtain y ys' where ys: "ys = y # ys'" by (cases ys) auto
  from Cons.prems ys have "hexByte x @ EncodeToString xs = hexByte y @ EncodeToString ys'"
    by (simp add: EncodeToString_def)
  moreover have "length (hexByte x) = length (hexByte y)" by (simp add: hexByte_def)
  ultimately have "hexByte x = hexByte y" and "EncodeToString xs = EncodeToString ys'"
    by simp_all
  with Cons.IH ys show ?case by (simp add: hexByte_inj)
qed

lemma of_char_lt: "(of_char c :: nat) < 2 ^ LENGTH(8)"
proof -
  have "(of_char c :: nat) mod 256 = of_char c" by (rule of_char_mod_256)
  moreover have "(of_char c :: nat) mod 256 < 256" by (rule mod_less_divisor) simp
  ultimately have "(of_char c :: nat) < 256" by simp
  then show ?thesis by simp
qed

lemma unat_byte_of_char: "unat (of_nat (of_char c) :: byte) = of_char c"
proof -
  have "unat (of_nat (of_char c) :: byte) = of_char c mod 2 ^ LENGTH(8)"
    by (rule unat_of_nat)
  also have "\<dots> = of_char c"
    by (rule mod_less) (rule of_char_lt)
  finally show ?thesis .
qed

lemma byte_of_char_inj:
  assumes "(of_nat (of_char c) :: byte) = of_nat (of_char d)"
  shows "c = d"
proof -
  have "unat (of_nat (of_char c) :: byte) = unat (of_nat (of_char d) :: byte)"
    using assms by (rule arg_cong)
  then have "(of_char c :: nat) = of_char d"
    by (simp only: unat_byte_of_char)
  then show "c = d" by (simp only: of_char_eq_iff)
qed

lemma idDigest_inj: "idDigest x = idDigest y \<Longrightarrow> x = y"
proof (induction x arbitrary: y)
  case Nil
  then show ?case by (simp add: idDigest_def)
next
  case (Cons c x)
  from Cons.prems obtain d y' where y: "y = d # y'" by (cases y) (simp_all add: idDigest_def)
  with Cons.prems have "(of_nat (of_char c) :: byte) # idDigest x = of_nat (of_char d) # idDigest y'"
    by (simp only: idDigest_def list.map)
  then have h: "(of_nat (of_char c) :: byte) = of_nat (of_char d)"
    and t: "idDigest x = idDigest y'"
    by (simp_all only: list.inject)
  from h have "c = d" by (rule byte_of_char_inj)
  with Cons.IH [OF t] y show ?case by simp
qed

lemma EncodeToString_eq_iff: "EncodeToString xs = EncodeToString ys \<longleftrightarrow> xs = ys"
  using EncodeToString_inj by blast

lemma Metadata_Hash_eq_iff:
  "Metadata_Hash H m = Metadata_Hash H m' \<longleftrightarrow>
     blake3_Sum H (Metadata_bytes H m) = blake3_Sum H (Metadata_bytes H m')"
  unfolding Metadata_Hash_def by (rule EncodeToString_eq_iff)

lemma Document_Hash_eq_iff:
  "Document_Hash H g = Document_Hash H g' \<longleftrightarrow>
     blake3_Sum H (Document_bytes H g) = blake3_Sum H (Document_bytes H g')"
  unfolding Document_Hash_def by (rule EncodeToString_eq_iff)

lemma length_Metadata_Hash:
  "length (Metadata_Hash H m) = 2 * length (blake3_Sum H (Metadata_bytes H m))"
  by (simp add: Metadata_Hash_def length_EncodeToString)

text \<open>
  Claim C6, as the code has it. Each digest is the hexadecimal text of the BLAKE3 digest of
  a concatenation: for metadata, of the nine fields (identifier, title, author,
  description, the date in the layout RFC 3339, path, package, canonical URL, and
  \<^verbatim>\<open>true\<close> or \<^verbatim>\<open>false\<close> for the hidden flag), in this order and with nothing between them; for
  a document, of the name of its type, the raw source, the rendered HTML and the digest of
  its metadata. So the digest of a document depends on these four only. Where BLAKE3 does
  not collide on the two concatenations, two digests are equal exactly when the
  concatenations are. A change of one field changes the concatenation (for the date and the
  type: when it changes what is written for them; for the metadata of a document: when it
  changes their digest). Records that differ in more than one field are not covered: their
  concatenations can be equal.
\<close>

theorem C6_digest_of_concatenation:
  "Metadata_Hash H m =
     EncodeToString (blake3_Sum H (ID m @ Title m @ Author m @ Description m @
       Format_RFC3339 H (Date m) @ Path m @ GoPackage m @ Canonical m @ FormatBool (Hidden m))) \<and>
   Document_Hash H g =
     EncodeToString (blake3_Sum H (DocumentType_String H (Type g) @ Markdown g @ HTML g @
       Metadata_Hash H (Metadata g))) \<and>
   (Type g = Type g' \<and> Markdown g = Markdown g' \<and> HTML g = HTML g' \<and>
    Metadata_Hash H (Metadata g) = Metadata_Hash H (Metadata g') \<longrightarrow>
      Document_Hash H g = Document_Hash H g') \<and>
   ((blake3_Sum H (Metadata_bytes H m) = blake3_Sum H (Metadata_bytes H m') \<longrightarrow>
       Metadata_bytes H m = Metadata_bytes H m') \<longrightarrow>
      (Metadata_Hash H m = Metadata_Hash H m' \<longleftrightarrow> Metadata_bytes H m = Metadata_bytes H m')) \<and>
   ((blake3_Sum H (Document_bytes H g) = blake3_Sum H (Document_bytes H g') \<longrightarrow>
       Document_bytes H g = Document_bytes H g') \<longrightarrow>
      (Document_Hash H g = Document_Hash H g' \<longleftrightarrow> Document_bytes H g = Document_bytes H g')) \<and>
   (Metadata_bytes H (m\<lparr>ID := x\<rparr>) = Metadata_bytes H m \<longleftrightarrow> x = ID m) \<and>
   (Metadata_bytes H (m\<lparr>Title := x\<rparr>) = Metadata_bytes H m \<longleftrightarrow> x = Title m) \<and>
   (Metadata_bytes H (m\<lparr>Author := x\<rparr>) = Metadata_bytes H m \<longleftrightarrow> x = Author m) \<and>
   (Metadata_bytes H (m\<lparr>Description := x\<rparr>) = Metadata_bytes H m \<longleftrightarrow> x = Description m) \<and>
   (Metadata_bytes H (m\<lparr>Date := d\<rparr>) = Metadata_bytes H m \<longleftrightarrow>
      Format_RFC3339 H d = Format_RFC3339 H (Date m)) \<and>
   (Metadata_bytes H (m\<lparr>Path := x\<rparr>) = Metadata_bytes H m \<longleftrightarrow> x = Path m) \<and>
   (Metadata_bytes H (m\<lparr>GoPackage := x\<rparr>) = Metadata_bytes H m \<longleftrightarrow> x = GoPackage m) \<and>
   (Metadata_bytes H (m\<lparr>Canonical := x\<rparr>) = Metadata_bytes H m \<longleftrightarrow> x = Canonical m) \<and>
   (Metadata_bytes H (m\<lparr>Hidden := b\<rparr>) = Metadata_bytes H m \<longleftrightarrow> b = Hidden m) \<and>
   (Document_bytes H (g\<lparr>Type := t\<rparr>) = Document_bytes H g \<longleftrightarrow>
      DocumentType_String H t = DocumentType_String H (Type g)) \<and>
   (Document_bytes H (g\<lparr>Markdown := x\<rparr>) = Document_bytes H g \<longleftrightarrow> x = Markdown g) \<and>
   (Document_bytes H (g\<lparr>HTML := x\<rparr>) = Document_bytes H g \<longleftrightarrow> x = HTML g) \<and>
   (Document_bytes H (g\<lparr>Metadata := m\<rparr>) = Document_bytes H g \<longleftrightarrow>
      Metadata_Hash H m = Metadata_Hash H (Metadata g))"
proof (intro conjI)
  show "Metadata_Hash H m =
     EncodeToString (blake3_Sum H (ID m @ Title m @ Author m @ Description m @
       Format_RFC3339 H (Date m) @ Path m @ GoPackage m @ Canonical m @ FormatBool (Hidden m)))"
    by (simp add: Metadata_Hash_def Metadata_bytes_def)
  show "Document_Hash H g =
     EncodeToString (blake3_Sum H (DocumentType_String H (Type g) @ Markdown g @ HTML g @
       Metadata_Hash H (Metadata g)))"
    by (simp add: Document_Hash_def Document_bytes_def)
  show "Type g = Type g' \<and> Markdown g = Markdown g' \<and> HTML g = HTML g' \<and>
    Metadata_Hash H (Metadata g) = Metadata_Hash H (Metadata g') \<longrightarrow>
      Document_Hash H g = Document_Hash H g'"
    by (simp add: Document_Hash_def Document_bytes_def)
  show "(blake3_Sum H (Metadata_bytes H m) = blake3_Sum H (Metadata_bytes H m') \<longrightarrow>
       Metadata_bytes H m = Metadata_bytes H m') \<longrightarrow>
      (Metadata_Hash H m = Metadata_Hash H m' \<longleftrightarrow> Metadata_bytes H m = Metadata_bytes H m')"
    by (auto simp: Metadata_Hash_eq_iff)
  show "(blake3_Sum H (Document_bytes H g) = blake3_Sum H (Document_bytes H g') \<longrightarrow>
       Document_bytes H g = Document_bytes H g') \<longrightarrow>
      (Document_Hash H g = Document_Hash H g' \<longleftrightarrow> Document_bytes H g = Document_bytes H g')"
    by (auto simp: Document_Hash_eq_iff)
  show "Metadata_bytes H (m\<lparr>ID := x\<rparr>) = Metadata_bytes H m \<longleftrightarrow> x = ID m"
    by (simp add: Metadata_bytes_def)
  show "Metadata_bytes H (m\<lparr>Title := x\<rparr>) = Metadata_bytes H m \<longleftrightarrow> x = Title m"
    by (simp add: Metadata_bytes_def)
  show "Metadata_bytes H (m\<lparr>Author := x\<rparr>) = Metadata_bytes H m \<longleftrightarrow> x = Author m"
    by (simp add: Metadata_bytes_def)
  show "Metadata_bytes H (m\<lparr>Description := x\<rparr>) = Metadata_bytes H m \<longleftrightarrow> x = Description m"
    by (simp add: Metadata_bytes_def)
  show "Metadata_bytes H (m\<lparr>Date := d\<rparr>) = Metadata_bytes H m \<longleftrightarrow>
      Format_RFC3339 H d = Format_RFC3339 H (Date m)"
    by (simp add: Metadata_bytes_def)
  show "Metadata_bytes H (m\<lparr>Path := x\<rparr>) = Metadata_bytes H m \<longleftrightarrow> x = Path m"
    by (simp add: Metadata_bytes_def)
  show "Metadata_bytes H (m\<lparr>GoPackage := x\<rparr>) = Metadata_bytes H m \<longleftrightarrow> x = GoPackage m"
    by (simp add: Metadata_bytes_def)
  show "Metadata_bytes H (m\<lparr>Canonical := x\<rparr>) = Metadata_bytes H m \<longleftrightarrow> x = Canonical m"
    by (simp add: Metadata_bytes_def)
  show "Metadata_bytes H (m\<lparr>Hidden := b\<rparr>) = Metadata_bytes H m \<longleftrightarrow> b = Hidden m"
    by (auto simp: Metadata_bytes_def FormatBool_def)
  show "Document_bytes H (g\<lparr>Type := t\<rparr>) = Document_bytes H g \<longleftrightarrow>
      DocumentType_String H t = DocumentType_String H (Type g)"
    by (simp add: Document_bytes_def)
  show "Document_bytes H (g\<lparr>Markdown := x\<rparr>) = Document_bytes H g \<longleftrightarrow> x = Markdown g"
    by (simp add: Document_bytes_def)
  show "Document_bytes H (g\<lparr>HTML := x\<rparr>) = Document_bytes H g \<longleftrightarrow> x = HTML g"
    by (simp add: Document_bytes_def)
  show "Document_bytes H (g\<lparr>Metadata := m\<rparr>) = Document_bytes H g \<longleftrightarrow>
      Metadata_Hash H m = Metadata_Hash H (Metadata g)"
    by (simp add: Document_bytes_def)
qed

theorem C6_witness:
  "Metadata_Hash exIdealHasher exMetaA \<noteq> Metadata_Hash exIdealHasher (exMetaA\<lparr>Title := ''x''\<rparr>) \<and>
   Document_Hash exIdealHasher exDoc1 = Document_Hash exIdealHasher (exDoc1\<lparr>Metadata := Metadata exDoc1\<rparr>) \<and>
   Document_Hash exIdealHasher exDoc1 \<noteq> Document_Hash exIdealHasher (exDoc1\<lparr>Markdown := ''x''\<rparr>)"
proof -
  have i: "blake3_Sum exIdealHasher = idDigest" by (simp add: exIdealHasher_def)
  have a: "blake3_Sum exIdealHasher (Metadata_bytes exIdealHasher exMetaA) =
      blake3_Sum exIdealHasher (Metadata_bytes exIdealHasher (exMetaA\<lparr>Title := ''x''\<rparr>)) \<longrightarrow>
    Metadata_bytes exIdealHasher exMetaA = Metadata_bytes exIdealHasher (exMetaA\<lparr>Title := ''x''\<rparr>)"
    unfolding i using idDigest_inj by blast
  have b: "blake3_Sum exIdealHasher (Document_bytes exIdealHasher exDoc1) =
      blake3_Sum exIdealHasher (Document_bytes exIdealHasher (exDoc1\<lparr>Markdown := ''x''\<rparr>)) \<longrightarrow>
    Document_bytes exIdealHasher exDoc1 = Document_bytes exIdealHasher (exDoc1\<lparr>Markdown := ''x''\<rparr>)"
    unfolding i using idDigest_inj by blast
  have c: "Title exMetaA \<noteq> ''x''" "Markdown exDoc1 \<noteq> ''x''"
    by (simp_all add: exMetaA_def exDoc1_def exSrc1_def)
  note t1 = C6_digest_of_concatenation [of exIdealHasher exMetaA exDoc1 exDoc1
      "exMetaA\<lparr>Title := ''x''\<rparr>" "''x''"]
  note t2 = C6_digest_of_concatenation [of exIdealHasher exMetaA exDoc1
      "exDoc1\<lparr>Markdown := ''x''\<rparr>" exMetaA "''x''"]
  note t3 = C6_digest_of_concatenation [of exIdealHasher exMetaA exDoc1
      "exDoc1\<lparr>Metadata := Metadata exDoc1\<rparr>"]
  have "Metadata_Hash exIdealHasher exMetaA \<noteq> Metadata_Hash exIdealHasher (exMetaA\<lparr>Title := ''x''\<rparr>)"
    using t1 a c by metis
  moreover have "Document_Hash exIdealHasher exDoc1 \<noteq>
      Document_Hash exIdealHasher (exDoc1\<lparr>Markdown := ''x''\<rparr>)"
    using t2 b c by metis
  moreover have "Document_Hash exIdealHasher exDoc1 =
      Document_Hash exIdealHasher (exDoc1\<lparr>Metadata := Metadata exDoc1\<rparr>)"
    using t3 by simp
  ultimately show ?thesis by blast
qed

lemma concatenation_collision: "Metadata_Hash H exMetaA = Metadata_Hash H exMetaB"
  by (simp add: Metadata_Hash_def Metadata_bytes_def exMetaA_def exMetaB_def)

theorem C6_counterexample:
  "ID exMetaA \<noteq> ID exMetaB \<and> Title exMetaA \<noteq> Title exMetaB \<and>
   Metadata_Hash exIdealHasher exMetaA = Metadata_Hash exIdealHasher exMetaB"
  by (simp add: Metadata_Hash_def Metadata_bytes_def exMetaA_def exMetaB_def)

section \<open>The path generator\<close>




























section \<open>The snapshot: load and save\<close>

lemma setContent_twice:
  "setContent name b (setContent name a w) = setContent name b w"
  by (simp add: setContent_def split: option.splits)

lemma openSnapshot_new:
  assumes "files w dbFile = None" and "\<forall>c. \<not> fails X c dbFile"
  shows "openSnapshot X w = (Inr (), setContent dbFile (zstd_Compress X ''{}'') w)"
  using assms by (simp add: openSnapshot_def Let_def setContent_twice)

lemma openSnapshot_old:
  assumes "files w dbFile = Some f"
  shows "openSnapshot X w =
     (if fails X Stat dbFile then (Inl FatalStat, w)
      else if fails X Open dbFile then (Inl FatalOpen, w) else (Inr (), w))"
  using assms by (simp add: openSnapshot_def)

lemma load_new:
  assumes "files w dbFile = None" and "\<forall>c. \<not> fails X c dbFile"
    and "snapshot_Decode X (zstd_Compress X ''{}'') = Inr (Some \<lparr>Posts = None\<rparr>)"
  shows "load X w =
     (Inr \<lparr>DataStore = Some \<lparr>Posts = Some Map.empty\<rparr>\<rparr>,
      setContent dbFile (zstd_Compress X ''{}'') w)"
proof -
  have "files (setContent dbFile (zstd_Compress X ''{}'') w) dbFile =
      Some \<lparr>content = zstd_Compress X ''{}'', perm = 0x1A4\<rparr>"
    using assms(1) by (simp add: setContent_def)
  then show ?thesis
    using assms by (simp add: load_def openSnapshot_new normalizeStore_def)
qed

lemma load_corrupt:
  assumes "files w dbFile = Some f" and "snapshot_Decode X (content f) = Inl e"
  shows "load X w =
     (Inl (if fails X Stat dbFile then FatalStat else if fails X Open dbFile then FatalOpen
           else if fails X NewReader dbFile then FatalZstdReader else FatalDecode), w)"
  using assms by (simp add: load_def openSnapshot_old)

lemma load_old:
  assumes "files w dbFile = Some f" and "\<forall>c. \<not> fails X c dbFile"
    and "snapshot_Decode X (content f) = Inr d"
  shows "load X w = (Inr (normalizeStore d), w)"
  using assms by (simp add: load_def openSnapshot_old)

lemma storeReady_normalizeStore: "storeReady (normalizeStore d)"
  by (simp add: storeReady_def normalizeStore_def Let_def split: option.splits)

lemma load_storeReady:
  assumes "load X w = (Inr gc, w')"
  shows "storeReady gc"
proof -
  from assms obtain d where "gc = normalizeStore d"
    by (auto simp: load_def split: prod.splits sum.splits if_splits)
  then show ?thesis by (simp add: storeReady_normalizeStore)
qed

text \<open>
  Claim C8. When there is no snapshot file and no call on its path fails, and the codec
  reads the compressed empty object that line 301 writes as a store without a map of
  posts, the load gives a store with an empty map of posts (and the file now holds the
  compressed empty object). When the file is there and its content does not decode, the
  load ends fatally, and so does \<^verbatim>\<open>main\<close>, with the world as it was: no file was processed
  and nothing was saved; with no failing call the fatal error is the one of line 331. A load
  that returns gives a store with a map of posts: a \<^verbatim>\<open>nil\<close> store and a store with a
  \<^verbatim>\<open>nil\<close> map both become the store with the empty map, and a map that was decoded is
  kept.
\<close>

theorem C8_load:
  "(files w dbFile = None \<and> (\<forall>c. \<not> fails X c dbFile) \<and>
    snapshot_Decode X (zstd_Compress X ''{}'') = Inr (Some \<lparr>Posts = None\<rparr>) \<longrightarrow>
      load X w =
        (Inr \<lparr>DataStore = Some \<lparr>Posts = Some Map.empty\<rparr>\<rparr>,
         setContent dbFile (zstd_Compress X ''{}'') w)) \<and>
   (files w dbFile = Some f \<and> snapshot_Decode X (content f) = Inl e \<longrightarrow>
      (\<exists>ft. load X w = (Inl ft, w) \<and> main X w = (Some ft, w)) \<and>
      ((\<forall>c. \<not> fails X c dbFile) \<longrightarrow> main X w = (Some FatalDecode, w))) \<and>
   (files w dbFile = Some f \<and> (\<forall>c. \<not> fails X c dbFile) \<and>
    snapshot_Decode X (content f) = Inr d \<longrightarrow>
      load X w = (Inr (normalizeStore d), w)) \<and>
   (load X w = (Inr gc, w') \<longrightarrow> storeReady gc) \<and>
   normalizeStore None = \<lparr>DataStore = Some \<lparr>Posts = Some Map.empty\<rparr>\<rparr> \<and>
   normalizeStore (Some \<lparr>Posts = None\<rparr>) = \<lparr>DataStore = Some \<lparr>Posts = Some Map.empty\<rparr>\<rparr> \<and>
   normalizeStore (Some \<lparr>Posts = Some m\<rparr>) = \<lparr>DataStore = Some \<lparr>Posts = Some m\<rparr>\<rparr>"
proof (intro conjI impI)
  assume "files w dbFile = None \<and> (\<forall>c. \<not> fails X c dbFile) \<and>
    snapshot_Decode X (zstd_Compress X ''{}'') = Inr (Some \<lparr>Posts = None\<rparr>)"
  then show "load X w =
        (Inr \<lparr>DataStore = Some \<lparr>Posts = Some Map.empty\<rparr>\<rparr>,
         setContent dbFile (zstd_Compress X ''{}'') w)"
    using load_new by blast
next
  assume a: "files w dbFile = Some f \<and> snapshot_Decode X (content f) = Inl e"
  then have l: "load X w =
     (Inl (if fails X Stat dbFile then FatalStat else if fails X Open dbFile then FatalOpen
           else if fails X NewReader dbFile then FatalZstdReader else FatalDecode), w)"
    using load_corrupt by blast
  then show "\<exists>ft. load X w = (Inl ft, w) \<and> main X w = (Some ft, w)"
    by (simp add: main_def)
  assume "\<forall>c. \<not> fails X c dbFile"
  with l show "main X w = (Some FatalDecode, w)"
    by (simp add: main_def)
next
  assume "files w dbFile = Some f \<and> (\<forall>c. \<not> fails X c dbFile) \<and>
    snapshot_Decode X (content f) = Inr d"
  then show "load X w = (Inr (normalizeStore d), w)"
    using load_old by blast
next
  assume "load X w = (Inr gc, w')"
  then show "storeReady gc" by (rule load_storeReady)
next
  show "normalizeStore None = \<lparr>DataStore = Some \<lparr>Posts = Some Map.empty\<rparr>\<rparr>"
    by (simp add: normalizeStore_def)
  show "normalizeStore (Some \<lparr>Posts = None\<rparr>) = \<lparr>DataStore = Some \<lparr>Posts = Some Map.empty\<rparr>\<rparr>"
    by (simp add: normalizeStore_def)
  show "normalizeStore (Some \<lparr>Posts = Some m\<rparr>) = \<lparr>DataStore = Some \<lparr>Posts = Some m\<rparr>\<rparr>"
    by (simp add: normalizeStore_def)
qed

theorem C8_witness:
  "load exX (exWorld exSrc2) =
     (Inr \<lparr>DataStore = Some \<lparr>Posts = Some Map.empty\<rparr>\<rparr>,
      setContent dbFile (zstd_Compress exX ''{}'') (exWorld exSrc2)) \<and>
   main exX (exWorldDb ''garbage'') = (Some FatalDecode, exWorldDb ''garbage'') \<and>
   load exX (exWorldDb ''null'') = (Inr (normalizeStore None), exWorldDb ''null'') \<and>
   storeReady (normalizeStore None)"
proof -
  have a: "files (exWorld exSrc2) dbFile = None"
    by (simp add: exWorld_def dbFile_def)
  have b: "\<forall>c. \<not> fails exX c dbFile" by (simp add: exX_def)
  have c: "snapshot_Decode exX (zstd_Compress exX ''{}'') = Inr (Some \<lparr>Posts = None\<rparr>)"
    by (simp add: exX_def exDecode_def)
  have d: "files (exWorldDb ''garbage'') dbFile = Some \<lparr>content = ''garbage'', perm = 0x1A4\<rparr>"
    "files (exWorldDb ''null'') dbFile = Some \<lparr>content = ''null'', perm = 0x1A4\<rparr>"
    by (simp_all add: exWorldDb_def)
  have e: "snapshot_Decode exX (content \<lparr>content = ''garbage'', perm = 0x1A4\<rparr>) = Inl ErrCodec"
    "snapshot_Decode exX (content \<lparr>content = ''null'', perm = 0x1A4\<rparr>) = Inr None"
    by (simp_all add: exX_def exDecode_def)
  note t1 = C8_load [of "exWorld exSrc2" exX]
  note t2 = C8_load [of "exWorldDb ''garbage''" exX "\<lparr>content = ''garbage'', perm = 0x1A4\<rparr>" ErrCodec]
  note t3 = C8_load [of "exWorldDb ''null''" exX "\<lparr>content = ''null'', perm = 0x1A4\<rparr>" _ None
      "normalizeStore None" "exWorldDb ''null''"]
  have "load exX (exWorld exSrc2) =
     (Inr \<lparr>DataStore = Some \<lparr>Posts = Some Map.empty\<rparr>\<rparr>,
      setContent dbFile (zstd_Compress exX ''{}'') (exWorld exSrc2))"
    using t1 a b c by blast
  moreover have "main exX (exWorldDb ''garbage'') = (Some FatalDecode, exWorldDb ''garbage'')"
    using t2 d(1) e(1) b by blast
  moreover have l3: "load exX (exWorldDb ''null'') = (Inr (normalizeStore None), exWorldDb ''null'')"
    using t3 d(2) e(2) b by blast
  moreover have "storeReady (normalizeStore None)"
    using t3 l3 by blast
  ultimately show ?thesis by blast
qed

lemma setContent_other: "name \<noteq> name' \<Longrightarrow> files (setContent name data w) name' = files w name'"
  by (simp add: setContent_def)

lemma tempFile_neq: "tempFile \<noteq> dbFile"
  by (simp add: tempFile_def)

lemma fillStates_snapshot:
  "v \<in> set (fillStates data w) \<Longrightarrow> files v dbFile = files w dbFile"
  by (auto simp: fillStates_def setContent_other tempFile_neq)

lemma fillStates_others:
  "v \<in> set (fillStates data w) \<Longrightarrow> name \<noteq> tempFile \<Longrightarrow> files v name = files w name"
  by (auto simp: fillStates_def setContent_def)

lemma last_fillStates: "last (fillStates data w) = setContent tempFile data w"
  by (simp add: fillStates_def)

lemma fillStates_nonempty: "fillStates data w \<noteq> []"
  by (simp add: fillStates_def)

lemma saveSteps_fatal:
  assumes "saveSteps X gc w = (Some ft, ws)" and "v \<in> set ws"
  shows "files v dbFile = files w dbFile"
  using assms fillStates_snapshot [of v _ w]
  by (auto simp: saveSteps_def Let_def setContent_other tempFile_neq
      split: if_splits sum.splits)

lemma saveSteps_done:
  assumes "saveSteps X gc w = (None, ws)"
  shows "\<exists>data. snapshot_Encode X (DataStore gc) = Inr data \<and> files w tempFile = None \<and>
           ws = w # fillStates data w @ [renameFile tempFile dbFile (setContent tempFile data w)]"
  using assms
  by (auto simp: saveSteps_def Let_def split: if_splits sum.splits)

lemma renamed_snapshot:
  assumes "files w tempFile = None"
  shows "files (renameFile tempFile dbFile (setContent tempFile data w)) dbFile =
           Some \<lparr>content = data, perm = 0x1A4\<rparr>"
    and "files (renameFile tempFile dbFile (setContent tempFile data w)) tempFile = None"
  using assms tempFile_neq by (auto simp: renameFile_def setContent_def)

text \<open>
  Claim C9. The save encodes the whole store (the pointer \<open>DataStore gc\<close>) and writes the
  result to \<^verbatim>\<open>zdata/data.json.zstd.tmp\<close>, next to the snapshot \<^verbatim>\<open>zdata/data.json.zstd\<close>. When
  the temporary file is there already, or cannot be made, the save is fatal at once and the
  file system is as it was; when the rename fails the save is fatal. Whenever the save is
  fatal, the snapshot is the prior one in every state the file system went through. When the
  save succeeds, the snapshot is the prior one in every state but the last, and in the last
  state it holds the encoded store and the temporary file is gone. So a process that stops
  anywhere leaves either the prior snapshot or the new one. (That the rename is one step is
  the file system's part.) And a fatal save is a fatal \<^verbatim>\<open>main\<close>.
\<close>

theorem C9_save_atomic:
  "dbFile = ''zdata/'' @ ''data.json.zstd'' \<and> tempFile = ''zdata/'' @ ''data.json.zstd.tmp'' \<and>
   (files w tempFile \<noteq> None \<or> fails X Create tempFile \<longrightarrow>
      saveSteps X gc w = (Some FatalCreateTemp, [w]) \<and> save X gc w = (Some FatalCreateTemp, w)) \<and>
   (files w tempFile = None \<and> (\<forall>c. c \<noteq> Rename \<longrightarrow> \<not> fails X c tempFile) \<and>
    snapshot_Encode X (DataStore gc) = Inr data \<and> fails X Rename tempFile \<longrightarrow>
      fst (save X gc w) = Some FatalRename) \<and>
   (saveSteps X gc w = (Some ft, ws) \<longrightarrow> (\<forall>v \<in> set ws. files v dbFile = files w dbFile)) \<and>
   (saveSteps X gc w = (None, ws) \<longrightarrow>
      (\<exists>data. snapshot_Encode X (DataStore gc) = Inr data \<and>
         (\<forall>v \<in> set (butlast ws). files v dbFile = files w dbFile) \<and>
         files (last ws) dbFile = Some \<lparr>content = data, perm = 0x1A4\<rparr> \<and>
         files (last ws) tempFile = None)) \<and>
   (files w tempFile = None \<and> (\<forall>c. \<not> fails X c tempFile) \<and>
    snapshot_Encode X (DataStore gc) = Inr data \<longrightarrow>
      save X gc w = (None, renameFile tempFile dbFile (setContent tempFile data w))) \<and>
   (load X w0 = (Inr gc0, w1) \<and> generate X gc0 w1 = (None, gc, w) \<and>
    save X gc w = (Some ft, w') \<longrightarrow> main X w0 = (Some ft, w'))"
proof (intro conjI impI)
  show "dbFile = ''zdata/'' @ ''data.json.zstd''" by (simp add: dbFile_def)
  show "tempFile = ''zdata/'' @ ''data.json.zstd.tmp''" by (simp add: tempFile_def dbFile_def)
next
  assume a: "files w tempFile \<noteq> None \<or> fails X Create tempFile"
  then show s: "saveSteps X gc w = (Some FatalCreateTemp, [w])"
    by (auto simp: saveSteps_def)
  then show "save X gc w = (Some FatalCreateTemp, w)" by (simp add: save_def)
next
  assume "files w tempFile = None \<and> (\<forall>c. c \<noteq> Rename \<longrightarrow> \<not> fails X c tempFile) \<and>
    snapshot_Encode X (DataStore gc) = Inr data \<and> fails X Rename tempFile"
  then show "fst (save X gc w) = Some FatalRename"
    by (simp add: save_def saveSteps_def Let_def)
next
  assume "saveSteps X gc w = (Some ft, ws)"
  then show "\<forall>v \<in> set ws. files v dbFile = files w dbFile"
    using saveSteps_fatal by blast
next
  assume "saveSteps X gc w = (None, ws)"
  then obtain data where d: "snapshot_Encode X (DataStore gc) = Inr data"
    and t: "files w tempFile = None"
    and ws: "ws = w # fillStates data w @ [renameFile tempFile dbFile (setContent tempFile data w)]"
    using saveSteps_done by blast
  have bl: "butlast ws = w # fillStates data w"
    using ws by (simp add: butlast_append)
  have l: "last ws = renameFile tempFile dbFile (setContent tempFile data w)"
    using ws by simp
  have "\<forall>v \<in> set (butlast ws). files v dbFile = files w dbFile"
    using bl fillStates_snapshot by auto
  then show "\<exists>data. snapshot_Encode X (DataStore gc) = Inr data \<and>
         (\<forall>v \<in> set (butlast ws). files v dbFile = files w dbFile) \<and>
         files (last ws) dbFile = Some \<lparr>content = data, perm = 0x1A4\<rparr> \<and>
         files (last ws) tempFile = None"
    using d l renamed_snapshot [OF t] by auto
next
  assume "files w tempFile = None \<and> (\<forall>c. \<not> fails X c tempFile) \<and>
    snapshot_Encode X (DataStore gc) = Inr data"
  then show "save X gc w = (None, renameFile tempFile dbFile (setContent tempFile data w))"
    by (simp add: save_def saveSteps_def Let_def fillStates_nonempty)
next
  assume "load X w0 = (Inr gc0, w1) \<and> generate X gc0 w1 = (None, gc, w) \<and>
    save X gc w = (Some ft, w')"
  then show "main X w0 = (Some ft, w')" by (simp add: main_def)
qed

theorem C9_witness:
  "save exX exStore (exWorldDb ''{}'') =
     (None, renameFile tempFile dbFile (setContent tempFile ''{posts:{}}'' (exWorldDb ''{}''))) \<and>
   list_all (\<lambda>v. files v dbFile = files (exWorldDb ''{}'') dbFile)
     (butlast (snd (saveSteps exX exStore (exWorldDb ''{}'')))) \<and>
   saveSteps exX exStore (setContent tempFile ''left over'' (exWorldDb ''{}'')) =
     (Some FatalCreateTemp, [setContent tempFile ''left over'' (exWorldDb ''{}'')]) \<and>
   fst (save exXRename exStore (exWorldDb ''{}'')) = Some FatalRename \<and>
   list_all (\<lambda>v. files v dbFile = files (exWorldDb ''{}'') dbFile)
     (snd (saveSteps exXRename exStore (exWorldDb ''{}'')))"
proof -
  have a: "files (exWorldDb ''{}'') tempFile = None"
    by (simp add: exWorldDb_def exWorld_def tempFile_def dbFile_def)
  have b: "\<forall>c. \<not> fails exX c tempFile" by (simp add: exX_def)
  have c: "snapshot_Encode exX (DataStore exStore) = Inr ''{posts:{}}''"
    by (simp add: exX_def exEncode_def exStore_def)
  have d: "files (setContent tempFile ''left over'' (exWorldDb ''{}'')) tempFile \<noteq> None"
    by (simp add: setContent_def)
  note t1 = C9_save_atomic [of "exWorldDb ''{}''" exX exStore "''{posts:{}}''" _
      "snd (saveSteps exX exStore (exWorldDb ''{}''))"]
  note t2 = C9_save_atomic [of "setContent tempFile ''left over'' (exWorldDb ''{}'')" exX exStore]
  have s1: "save exX exStore (exWorldDb ''{}'') =
     (None, renameFile tempFile dbFile (setContent tempFile ''{posts:{}}'' (exWorldDb ''{}'')))"
    using t1 a b c by blast
  then have "fst (saveSteps exX exStore (exWorldDb ''{}'')) = None"
    by (simp add: save_def split: prod.splits)
  then have "saveSteps exX exStore (exWorldDb ''{}'') =
      (None, snd (saveSteps exX exStore (exWorldDb ''{}'')))"
    by (metis prod.collapse)
  then have "\<forall>v \<in> set (butlast (snd (saveSteps exX exStore (exWorldDb ''{}'')))).
      files v dbFile = files (exWorldDb ''{}'') dbFile"
    using t1 by blast
  then have s2: "list_all (\<lambda>v. files v dbFile = files (exWorldDb ''{}'') dbFile)
     (butlast (snd (saveSteps exX exStore (exWorldDb ''{}''))))"
    by (simp add: list_all_iff)
  have s3: "saveSteps exX exStore (setContent tempFile ''left over'' (exWorldDb ''{}'')) =
     (Some FatalCreateTemp, [setContent tempFile ''left over'' (exWorldDb ''{}'')])"
    using t2 d by blast
  have e: "\<forall>c. c \<noteq> Rename \<longrightarrow> \<not> fails exXRename c tempFile" "fails exXRename Rename tempFile"
    "snapshot_Encode exXRename (DataStore exStore) = Inr ''{posts:{}}''"
    by (simp_all add: exXRename_def exX_def exEncode_def exStore_def)
  note t3 = C9_save_atomic [of "exWorldDb ''{}''" exXRename exStore "''{posts:{}}''" FatalRename
      "snd (saveSteps exXRename exStore (exWorldDb ''{}''))"]
  have s4: "fst (save exXRename exStore (exWorldDb ''{}'')) = Some FatalRename"
    using t3 a e by blast
  then have "fst (saveSteps exXRename exStore (exWorldDb ''{}'')) = Some FatalRename"
    by (simp add: save_def split: prod.splits)
  then have "saveSteps exXRename exStore (exWorldDb ''{}'') =
      (Some FatalRename, snd (saveSteps exXRename exStore (exWorldDb ''{}'')))"
    by (metis prod.collapse)
  then have "\<forall>v \<in> set (snd (saveSteps exXRename exStore (exWorldDb ''{}''))).
      files v dbFile = files (exWorldDb ''{}'') dbFile"
    using t3 by blast
  then have s5: "list_all (\<lambda>v. files v dbFile = files (exWorldDb ''{}'') dbFile)
     (snd (saveSteps exXRename exStore (exWorldDb ''{}'')))"
    by (simp add: list_all_iff)
  from s1 s2 s3 s4 s5 show ?thesis by blast
qed

end
